theory Spec2Isabelle
  imports Main
begin

section \<open>The class type of the script compiler (class\_type.cpp)\<close>

text \<open>
  A shallow embedding of \<^verbatim>\<open>c10::ClassType\<close> as implemented in
  \<^verbatim>\<open>torch/csrc/jit/script/class_type.cpp\<close>. The C++ object is a record; a member
  function that mutates the object takes the record and returns the record as it is when
  control leaves the function, together with either the returned value or the error
  thrown. A \<^verbatim>\<open>TORCH_CHECK\<close>, \<^verbatim>\<open>TORCH_INTERNAL_ASSERT\<close> or \<^verbatim>\<open>AT_ASSERT\<close> that
  fails throws; the object keeps every write made before the throw, so the state is
  returned on the error path too. The file is modelled as compiled without
  \<^verbatim>\<open>USE_MOBILE_CLASSTYPE\<close>, so with \<^verbatim>\<open>refine\<close> and the interface branch of
  \<^verbatim>\<open>isSubtypeOfExt\<close>.
\<close>

subsection \<open>Types, constant values, schemas and functions\<close>

text \<open>
  The part of the type language the file inspects: \<^verbatim>\<open>type->kind()\<close> is compared with
  the tensor, optional and none kinds, and an optional type is asked for its element type.
\<close>

datatype jtype =
    TensorType
  | NoneType
  | AnyType
  | IntType
  | FloatType
  | StringType
  | OptionalType jtype
  | ListType jtype
  | NamedClass string

datatype type_kind =
    TensorKind | NoneKind | AnyKind | IntKind | FloatKind | StringKind
  | OptionalKind | ListKind | ClassKind

fun kind :: "jtype \<Rightarrow> type_kind" where
  "kind TensorType = TensorKind"
| "kind NoneType = NoneKind"
| "kind AnyType = AnyKind"
| "kind IntType = IntKind"
| "kind FloatType = FloatKind"
| "kind StringType = StringKind"
| "kind (OptionalType t) = OptionalKind"
| "kind (ListType t) = ListKind"
| "kind (NamedClass n) = ClassKind"

text \<open>\<^verbatim>\<open>type->expect<OptionalType>()->getElementType()\<close>, read only under the optional kind.\<close>

fun getElementType :: "jtype \<Rightarrow> jtype option" where
  "getElementType (OptionalType t) = Some t"
| "getElementType t = None"

datatype ivalue = NoneVal | IntVal int | BoolVal bool | StringVal string

text \<open>
  A \<^verbatim>\<open>FunctionSchema\<close>: the file reads its name and hands the whole schema to the
  schema's own subtype check.
\<close>

record function_schema =
  schema_name :: string
  schema_arguments :: "(string \<times> jtype) list"
  schema_returns :: "jtype list"

text \<open>
  Methods are \<^verbatim>\<open>Function*\<close>: pointers into storage owned by the compilation unit. A
  pointer is an address and the store maps addresses to the functions they point to.
\<close>

record jit_function =
  function_name :: string
  getSchema :: function_schema

type_synonym fn_ptr = nat
type_synonym fn_store = "fn_ptr \<Rightarrow> jit_function"

subsection \<open>Errors and diagnostics\<close>

text \<open>
  One constructor per throwing check of the file, carrying the variable parts of the
  message (the receiver's \<^verbatim>\<open>python_str()\<close>, which every message also prints, is
  determined by the receiver and left out).
\<close>

datatype error =
    ConstantFieldExists string string ivalue
  | AttributeFieldExists string string jtype
  | ContainsAny string string jtype
  | ParameterOnNonModule
  | ParameterTypeRejected jtype
  | MethodRedefined string
  | NoAttributeNamed string
  | NoConstantNamed string
  | NoConstantSlot nat
  | ConstantSizesDiffer
  | RefineSizeMismatch
  | RefineNotSubtype nat

text \<open>
  The errors raised by \<^verbatim>\<open>TORCH_INTERNAL_ASSERT\<close> and \<^verbatim>\<open>AT_ASSERT\<close> (internal invariant
  breaches), as opposed to \<^verbatim>\<open>TORCH_CHECK\<close>.
\<close>

fun internal_assert :: "error \<Rightarrow> bool" where
  "internal_assert ParameterOnNonModule = True"
| "internal_assert RefineSizeMismatch = True"
| "internal_assert (RefineNotSubtype i) = True"
| "internal_assert ConstantSizesDiffer = True"
| "internal_assert e = False"

text \<open>
  What \<^verbatim>\<open>isSubtypeOfExt\<close> writes to \<^verbatim>\<open>why_not\<close>, one constructor per message:
  \<^item> \<open>NotModuleClass\<close>: "Class '..' is not a subtype of the module interface '..' , only
    ScriptModule class can be subtype of module interface."
  \<^item> \<open>MissingMethod n\<close>: "Class '..' does not have method 'n' but '..' does."
  \<^item> \<open>IncompatibleMethod s1 s2\<close>: "Method on class '..' (1) is not compatible with
    interface '..' (2)" followed by the two schemas.
  \<^item> \<open>SchemaReason\<close>: text written by the schema's own subtype check.
\<close>

datatype diagnostic =
    NotModuleClass
  | MissingMethod string
  | IncompatibleMethod function_schema function_schema
  | SchemaReason string

text \<open>
  \<^verbatim>\<open>std::ostream* why_not\<close>: \<open>None\<close> is the null pointer, \<open>Some w\<close> a stream holding
  \<open>w\<close>. \<^verbatim>\<open>if (why_not) *why_not << ...\<close> appends when there is a stream.
\<close>

type_synonym sink = "diagnostic list option"

definition write_to :: "sink \<Rightarrow> diagnostic list \<Rightarrow> sink" where
  "write_to why_not ds = map_option (\<lambda>w. w @ ds) why_not"

subsection \<open>The class type\<close>

text \<open>
  The members of \<^verbatim>\<open>ClassType\<close> (the source's names end in an underscore):
  \<open>parameterSlots\<close> is the shared pointer, null (\<open>None\<close>) unless the type was created
  as a module; \<open>compilation_unit\<close> is the weak reference, kept as a handle.
\<close>

record class_type =
  qualifiedName :: "string option"
  compilation_unit :: nat
  attributeNames :: "string list"
  attributeTypes :: "jtype list"
  parameterSlots :: "bool list option"
  constantNames :: "string list"
  constantValues :: "ivalue list"
  methods :: "fn_ptr list"

text \<open>The constructor: every sequence empty, the parameter slots allocated for a module.\<close>

definition create :: "string option \<Rightarrow> nat \<Rightarrow> bool \<Rightarrow> class_type" where
  "create qn cu is_mod =
     \<lparr> qualifiedName = qn, compilation_unit = cu,
       attributeNames = [], attributeTypes = [],
       parameterSlots = (if is_mod then Some [] else None),
       constantNames = [], constantValues = [], methods = [] \<rparr>"

text \<open>
  Modelled from the spec: \<^verbatim>\<open>is_module()\<close> and \<^verbatim>\<open>numAttributes()\<close> are declared in
  jit\_type.h, which is not under src/. The spec's data model says the parameter slots are
  present only if the type is a module, and that the attribute count is the length of the
  attribute names.
\<close>

definition is_module :: "class_type \<Rightarrow> bool" where
  "is_module c = (parameterSlots c \<noteq> None)"

definition numAttributes :: "class_type \<Rightarrow> nat" where
  "numAttributes c = length (attributeNames c)"

subsection \<open>Name checks\<close>

text \<open>
  \<^verbatim>\<open>checkNotExist\<close>: the constants are scanned first, then the attributes; the first index
  whose name matches throws, with the value (or type) stored at that index.
\<close>

definition checkNotExist :: "class_type \<Rightarrow> string \<Rightarrow> string \<Rightarrow> error + unit" where
  "checkNotExist c nm what =
     (case find (\<lambda>i. nm = constantNames c ! i) [0..<length (constantNames c)] of
        Some i \<Rightarrow> Inl (ConstantFieldExists what nm (constantValues c ! i))
      | None \<Rightarrow>
         (case find (\<lambda>i. nm = attributeNames c ! i) [0..<length (attributeNames c)] of
            Some i \<Rightarrow> Inl (AttributeFieldExists what nm (attributeTypes c ! i))
          | None \<Rightarrow> Inr ()))"

text \<open>
  Modelled from the spec: \<^verbatim>\<open>checkNoAny\<close> is defined outside src/. The spec says that
  adding an attribute fails if the declared type is the forbidden catch-all type; which
  types are forbidden is the parameter \<open>forbidden\<close>.
\<close>

definition checkNoAny :: "(jtype \<Rightarrow> bool) \<Rightarrow> string \<Rightarrow> string \<Rightarrow> jtype \<Rightarrow> error + unit" where
  "checkNoAny forbidden what nm ty =
     (if forbidden ty then Inl (ContainsAny what nm ty) else Inr ())"

subsection \<open>Attributes\<close>

text \<open>The \<^verbatim>\<open>TORCH_CHECK\<close> on the type of a parameter: tensor, optional tensor or none.\<close>

definition parameter_type_ok :: "jtype \<Rightarrow> bool" where
  "parameter_type_ok ty =
     (kind ty = TensorKind \<or>
      (kind ty = OptionalKind \<and> map_option kind (getElementType ty) = Some TensorKind) \<or>
      kind ty = NoneKind)"

text \<open>
  \<^verbatim>\<open>addAttribute\<close>, in the order of the source: the two checks, the two appends, the
  parameter checks, the append to the parameter slots.
\<close>

definition addAttribute ::
  "(jtype \<Rightarrow> bool) \<Rightarrow> class_type \<Rightarrow> string \<Rightarrow> jtype \<Rightarrow> bool \<Rightarrow> (error + nat) \<times> class_type" where
  "addAttribute forbidden c nm ty is_parameter =
     (let what = (if is_parameter then ''parameter'' else ''attribute'') in
      case checkNotExist c nm what of
        Inl e \<Rightarrow> (Inl e, c)
      | Inr u \<Rightarrow>
         (case checkNoAny forbidden what nm ty of
            Inl e \<Rightarrow> (Inl e, c)
          | Inr u \<Rightarrow>
             (let slot = length (attributeNames c);
                  c1 = c\<lparr>attributeNames := attributeNames c @ [nm]\<rparr>;
                  c2 = c1\<lparr>attributeTypes := attributeTypes c1 @ [ty]\<rparr>
              in if is_parameter \<and> \<not> is_module c2 then (Inl ParameterOnNonModule, c2)
                 else if is_parameter \<and> \<not> parameter_type_ok ty
                   then (Inl (ParameterTypeRejected ty), c2)
                 else if is_module c2
                   then (Inr slot,
                         c2\<lparr>parameterSlots :=
                              map_option (\<lambda>ps. ps @ [is_parameter]) (parameterSlots c2)\<rparr>)
                 else (Inr slot, c2))))"

text \<open>
  Modelled from the spec: \<^verbatim>\<open>getAttributeSlot\<close> and \<^verbatim>\<open>getConstantSlot\<close> are declared in
  jit\_type.h, which is not under src/. The spec says the removal looks up the slot of the
  name and fails with a not-found error if the name is absent.
\<close>

definition getAttributeSlot :: "class_type \<Rightarrow> string \<Rightarrow> error + nat" where
  "getAttributeSlot c nm =
     (case find (\<lambda>i. nm = attributeNames c ! i) [0..<length (attributeNames c)] of
        Some i \<Rightarrow> Inr i
      | None \<Rightarrow> Inl (NoAttributeNamed nm))"

definition getConstantSlot :: "class_type \<Rightarrow> string \<Rightarrow> error + nat" where
  "getConstantSlot c nm =
     (case find (\<lambda>i. nm = constantNames c ! i) [0..<length (constantNames c)] of
        Some i \<Rightarrow> Inr i
      | None \<Rightarrow> Inl (NoConstantNamed nm))"

text \<open>
  \<^verbatim>\<open>v.erase(v.begin() + slot)\<close>. The standard defines it only for an iterator to an
  element, so only for \<open>slot < v.size()\<close>; then the element is removed and the later
  ones move down. Erasing at or past the end is undefined behaviour: \<open>erase\<close> is \<open>None\<close>
  there, and so is a removal that reaches such an erase (no result and no state of the
  object is defined). \<open>without xs slot\<close> is the sequence with the element at \<open>slot\<close>
  removed.
\<close>

definition without :: "'a list \<Rightarrow> nat \<Rightarrow> 'a list" where
  "without xs slot = take slot xs @ drop (Suc slot) xs"

definition erase :: "'a list \<Rightarrow> nat \<Rightarrow> 'a list option" where
  "erase xs slot = (if slot < length xs then Some (without xs slot) else None)"

text \<open>
  \<^verbatim>\<open>unsafeRemoveAttribute\<close>: the slot lookup may throw; then the names, the types and, on
  a module, the parameter slots are erased at the slot, in this order.
\<close>

definition unsafeRemoveAttribute ::
  "class_type \<Rightarrow> string \<Rightarrow> ((error + unit) \<times> class_type) option" where
  "unsafeRemoveAttribute c nm =
     (case getAttributeSlot c nm of
        Inl e \<Rightarrow> Some (Inl e, c)
      | Inr slot \<Rightarrow>
         (case erase (attributeNames c) slot of
            None \<Rightarrow> None
          | Some names \<Rightarrow>
             (case erase (attributeTypes c) slot of
                None \<Rightarrow> None
              | Some types \<Rightarrow>
                 (let c2 = c\<lparr>attributeNames := names, attributeTypes := types\<rparr>
                  in if is_module c2
                     then (case erase (the (parameterSlots c2)) slot of
                             None \<Rightarrow> None
                           | Some slots \<Rightarrow> Some (Inr (), c2\<lparr>parameterSlots := Some slots\<rparr>))
                     else Some (Inr (), c2)))))"

subsection \<open>Methods\<close>

definition getMethod :: "fn_store \<Rightarrow> class_type \<Rightarrow> string \<Rightarrow> fn_ptr option" where
  "getMethod F c nm = find (\<lambda>m. nm = function_name (F m)) (methods c)"

definition addMethod :: "fn_store \<Rightarrow> class_type \<Rightarrow> fn_ptr \<Rightarrow> (error + unit) \<times> class_type" where
  "addMethod F c m =
     (if getMethod F c (function_name (F m)) \<noteq> None
      then (Inl (MethodRedefined (function_name (F m))), c)
      else (Inr (), c\<lparr>methods := methods c @ [m]\<rparr>))"

subsection \<open>Constants\<close>

definition addConstant :: "class_type \<Rightarrow> string \<Rightarrow> ivalue \<Rightarrow> (error + nat) \<times> class_type" where
  "addConstant c nm v =
     (case checkNotExist c nm ''constant'' of
        Inl e \<Rightarrow> (Inl e, c)
      | Inr u \<Rightarrow>
         (let slot = length (constantNames c);
              c1 = c\<lparr>constantNames := constantNames c @ [nm]\<rparr>;
              c2 = c1\<lparr>constantValues := constantValues c1 @ [v]\<rparr>
          in (Inr slot, c2)))"

text \<open>
  \<^verbatim>\<open>findConstant\<close>: after the internal assertion on the two sizes, \<open>pos\<close> counts the
  names before the first match; no match leaves it at the size.
\<close>

definition findConstant :: "class_type \<Rightarrow> string \<Rightarrow> error + ivalue option" where
  "findConstant c nm =
     (if length (constantNames c) \<noteq> length (constantValues c) then Inl ConstantSizesDiffer
      else let pos = length (takeWhile (\<lambda>n. nm \<noteq> n) (constantNames c))
           in if pos \<ge> length (constantNames c) then Inr None
              else Inr (Some (constantValues c ! pos)))"

definition getConstant :: "class_type \<Rightarrow> string \<Rightarrow> error + ivalue" where
  "getConstant c nm =
     (case findConstant c nm of
        Inl e \<Rightarrow> Inl e
      | Inr None \<Rightarrow> Inl (NoConstantNamed nm)
      | Inr (Some v) \<Rightarrow> Inr v)"

definition getConstantAt :: "class_type \<Rightarrow> nat \<Rightarrow> error + ivalue" where
  "getConstantAt c slot =
     (if length (constantNames c) \<noteq> length (constantValues c) then Inl ConstantSizesDiffer
      else if slot < length (constantValues c) then Inr (constantValues c ! slot)
      else Inl (NoConstantSlot slot))"

definition unsafeRemoveConstant ::
  "class_type \<Rightarrow> string \<Rightarrow> ((error + unit) \<times> class_type) option" where
  "unsafeRemoveConstant c nm =
     (case getConstantSlot c nm of
        Inl e \<Rightarrow> Some (Inl e, c)
      | Inr slot \<Rightarrow>
         (case erase (constantNames c) slot of
            None \<Rightarrow> None
          | Some names \<Rightarrow>
             (case erase (constantValues c) slot of
                None \<Rightarrow> None
              | Some vals \<Rightarrow>
                 Some (Inr (), c\<lparr>constantNames := names, constantValues := vals\<rparr>))))"

subsection \<open>Refinement\<close>

text \<open>
  Modelled from the spec: the defaults of the arguments that \<^verbatim>\<open>refine\<close> leaves out
  (\<^verbatim>\<open>is_module\<close> of \<^verbatim>\<open>create\<close>, \<^verbatim>\<open>is_parameter\<close> of \<^verbatim>\<open>addAttribute\<close>) are declared in
  jit\_type.h, which is not under src/. The spec says that refinement always constructs
  through the plain attribute add and never re-marks parameters, and that the parameter
  slots are allocated only when the module flag is passed.
\<close>

definition create_default_is_module :: bool where
  "create_default_is_module = False"

definition addAttribute_default_is_parameter :: bool where
  "addAttribute_default_is_parameter = False"

text \<open>
  \<^verbatim>\<open>refine\<close> builds a fresh type with \<^verbatim>\<open>ClassType::create(name(), compilation_unit_)\<close>
  and fills it through \<^verbatim>\<open>addAttribute\<close> and \<^verbatim>\<open>addMethod\<close>; an error thrown on the way
  discards the fresh type, and the receiver is const. \<^verbatim>\<open>Type::isSubtypeOf\<close> on the slot
  types is the parameter \<open>sub\<close>.
\<close>

fun refine_attributes ::
  "(jtype \<Rightarrow> bool) \<Rightarrow> (jtype \<Rightarrow> jtype \<Rightarrow> bool) \<Rightarrow> class_type \<Rightarrow> jtype list \<Rightarrow> nat list \<Rightarrow>
   class_type \<Rightarrow> error + class_type" where
  "refine_attributes forbidden sub c refined_slots [] ptr = Inr ptr"
| "refine_attributes forbidden sub c refined_slots (i # rest) ptr =
     (if \<not> sub (refined_slots ! i) (attributeTypes c ! i) then Inl (RefineNotSubtype i)
      else case addAttribute forbidden ptr (attributeNames c ! i) (refined_slots ! i)
                  addAttribute_default_is_parameter of
             (Inl e, ptr') \<Rightarrow> Inl e
           | (Inr slot, ptr') \<Rightarrow> refine_attributes forbidden sub c refined_slots rest ptr')"

fun refine_methods :: "fn_store \<Rightarrow> fn_ptr list \<Rightarrow> class_type \<Rightarrow> error + class_type" where
  "refine_methods F [] ptr = Inr ptr"
| "refine_methods F (m # rest) ptr =
     (case addMethod F ptr m of
        (Inl e, ptr') \<Rightarrow> Inl e
      | (Inr u, ptr') \<Rightarrow> refine_methods F rest ptr')"

definition refine ::
  "(jtype \<Rightarrow> bool) \<Rightarrow> (jtype \<Rightarrow> jtype \<Rightarrow> bool) \<Rightarrow> fn_store \<Rightarrow> class_type \<Rightarrow> jtype list \<Rightarrow>
   error + class_type" where
  "refine forbidden sub F c refined_slots =
     (let ptr = create (qualifiedName c) (compilation_unit c) create_default_is_module
      in if numAttributes c \<noteq> length refined_slots then Inl RefineSizeMismatch
         else case refine_attributes forbidden sub c refined_slots
                     [0..<length (attributeNames c)] ptr of
                Inl e \<Rightarrow> Inl e
              | Inr ptr1 \<Rightarrow> refine_methods F (methods c) ptr1)"

subsection \<open>Subtyping\<close>

text \<open>
  An \<^verbatim>\<open>InterfaceType\<close> as this file reads it: its required method schemas, in order, and
  its module flag. The right-hand side of a subtype query either casts to an interface or
  does not.
\<close>

record interface_type =
  iface_name :: string
  iface_methods :: "function_schema list"
  iface_is_module :: bool

datatype rhs_type = InterfaceRhs interface_type | OtherRhs jtype

text \<open>
  The two collaborators of the check are parameters: \<^verbatim>\<open>FunctionSchema::isSubtypeOf(rhs,
  is_method, why_not)\<close> and the base \<^verbatim>\<open>Type::isSubtypeOfExt(rhs, why_not)\<close>. Each is told
  whether a stream was passed and returns its verdict with the text it writes.
\<close>

type_synonym schema_check = "function_schema \<Rightarrow> function_schema \<Rightarrow> bool \<Rightarrow> bool \<Rightarrow> bool \<times> diagnostic list"
type_synonym base_check = "class_type \<Rightarrow> jtype \<Rightarrow> bool \<Rightarrow> bool \<times> diagnostic list"

text \<open>The loop over \<^verbatim>\<open>iface->methods()\<close>: the first failing schema returns false.\<close>

fun check_iface_methods ::
  "fn_store \<Rightarrow> schema_check \<Rightarrow> class_type \<Rightarrow> function_schema list \<Rightarrow> sink \<Rightarrow> bool \<times> sink" where
  "check_iface_methods F schema_sub c [] why_not = (True, why_not)"
| "check_iface_methods F schema_sub c (schema # rest) why_not =
     (case getMethod F c (schema_name schema) of
        None \<Rightarrow> (False, write_to why_not [MissingMethod (schema_name schema)])
      | Some self_method \<Rightarrow>
         (case schema_sub (getSchema (F self_method)) schema True (why_not \<noteq> None) of
            (ok, reasons) \<Rightarrow>
              if \<not> ok
              then (False,
                    write_to (write_to why_not reasons)
                      [IncompatibleMethod (getSchema (F self_method)) schema])
              else check_iface_methods F schema_sub c rest (write_to why_not reasons)))"

definition isSubtypeOfExt ::
  "fn_store \<Rightarrow> schema_check \<Rightarrow> base_check \<Rightarrow> class_type \<Rightarrow> rhs_type \<Rightarrow> sink \<Rightarrow> bool \<times> sink" where
  "isSubtypeOfExt F schema_sub base_sub c rhs why_not =
     (case rhs of
        InterfaceRhs iface \<Rightarrow>
          if \<not> is_module c \<and> iface_is_module iface
          then (False, write_to why_not [NotModuleClass])
          else check_iface_methods F schema_sub c (iface_methods iface) why_not
      | OtherRhs t \<Rightarrow>
          (case base_sub c t (why_not \<noteq> None) of
             (r, reasons) \<Rightarrow> (r, write_to why_not reasons)))"

text \<open>
  The words used to state what the interface check decides and writes: a required schema
  is satisfied when \<^verbatim>\<open>getMethod\<close> finds a method of its name whose schema passes the
  schema check in method context; \<open>schema_reasons\<close> is what that check writes for it,
  \<open>failure_diagnostic\<close> the message of the loop for a schema that is not satisfied, and
  \<open>mentions d n\<close> says that message \<open>d\<close> of the loop is about the method named \<open>n\<close>.
\<close>

definition method_ok ::
  "fn_store \<Rightarrow> schema_check \<Rightarrow> class_type \<Rightarrow> bool \<Rightarrow> function_schema \<Rightarrow> bool" where
  "method_ok F schema_sub c has_sink schema =
     (case getMethod F c (schema_name schema) of
        None \<Rightarrow> False
      | Some m \<Rightarrow> fst (schema_sub (getSchema (F m)) schema True has_sink))"

definition schema_reasons ::
  "fn_store \<Rightarrow> schema_check \<Rightarrow> class_type \<Rightarrow> bool \<Rightarrow> function_schema \<Rightarrow> diagnostic list" where
  "schema_reasons F schema_sub c has_sink schema =
     (case getMethod F c (schema_name schema) of
        None \<Rightarrow> []
      | Some m \<Rightarrow> snd (schema_sub (getSchema (F m)) schema True has_sink))"

definition failure_diagnostic :: "fn_store \<Rightarrow> class_type \<Rightarrow> function_schema \<Rightarrow> diagnostic" where
  "failure_diagnostic F c schema =
     (case getMethod F c (schema_name schema) of
        None \<Rightarrow> MissingMethod (schema_name schema)
      | Some m \<Rightarrow> IncompatibleMethod (getSchema (F m)) schema)"

fun mentions :: "diagnostic \<Rightarrow> string \<Rightarrow> bool" where
  "mentions NotModuleClass n = False"
| "mentions (MissingMethod m) n = (m = n)"
| "mentions (IncompatibleMethod s1 s2) n = (schema_name s2 = n)"
| "mentions (SchemaReason txt) n = False"

subsection \<open>Example types\<close>

text \<open>
  Concrete inputs in the shape of the spec's scenarios: classes \<open>Square\<close> and \<open>Circle\<close>,
  interfaces that require \<open>area\<close> and \<open>perimeter\<close>, a function store, and stand-ins for
  the two collaborators (a schema check that compares return types).
\<close>

definition area_float :: function_schema where
  "area_float =
     \<lparr>schema_name = ''area'', schema_arguments = [(''self'', AnyType)],
      schema_returns = [FloatType]\<rparr>"

definition area_int :: function_schema where
  "area_int =
     \<lparr>schema_name = ''area'', schema_arguments = [(''self'', AnyType)],
      schema_returns = [IntType]\<rparr>"

definition perimeter_float :: function_schema where
  "perimeter_float =
     \<lparr>schema_name = ''perimeter'', schema_arguments = [(''self'', AnyType)],
      schema_returns = [FloatType]\<rparr>"

definition example_functions :: fn_store where
  "example_functions p =
     (if p = 0 then \<lparr>function_name = ''area'', getSchema = area_float\<rparr>
      else if p = 1 then \<lparr>function_name = ''area'', getSchema = area_int\<rparr>
      else if p = 2 then \<lparr>function_name = ''perimeter'', getSchema = perimeter_float\<rparr>
      else if p = 3 then \<lparr>function_name = ''x'', getSchema = area_float\<lparr>schema_name := ''x''\<rparr>\<rparr>
      else \<lparr>function_name = ''dims'', getSchema = area_float\<lparr>schema_name := ''dims''\<rparr>\<rparr>)"

definition same_returns :: schema_check where
  "same_returns s1 s2 is_method has_sink =
     (if schema_returns s1 = schema_returns s2 then (True, [])
      else (False, if has_sink then [SchemaReason ''return types differ''] else []))"

definition no_base :: base_check where
  "no_base c t has_sink = (False, [])"

definition Square :: class_type where
  "Square = (create (Some ''Square'') 0 False)\<lparr>methods := [0, 2]\<rparr>"

definition Circle :: class_type where
  "Circle = (create (Some ''Circle'') 0 False)\<lparr>methods := [1]\<rparr>"

definition Shaped :: interface_type where
  "Shaped = \<lparr>iface_name = ''Shaped'', iface_methods = [area_float], iface_is_module = False\<rparr>"

definition ShapedModule :: interface_type where
  "ShapedModule =
     \<lparr>iface_name = ''ShapedModule'', iface_methods = [area_float], iface_is_module = True\<rparr>"

definition Measured :: interface_type where
  "Measured =
     \<lparr>iface_name = ''Measured'', iface_methods = [area_float, perimeter_float],
      iface_is_module = False\<rparr>"

text \<open>
  The length invariant of the parallel sequences (invariants 2 and 3 of the data model):
  types and, on a module, parameter slots are as long as the attribute names; constant
  values are as long as the constant names.
\<close>

definition parallel_lengths :: "class_type \<Rightarrow> bool" where
  "parallel_lengths c =
     (length (attributeTypes c) = length (attributeNames c) \<and>
      (parameterSlots c = None \<or>
       map_option length (parameterSlots c) = Some (length (attributeNames c))) \<and>
      length (constantValues c) = length (constantNames c))"

text \<open>
  More concrete inputs: the spec's \<open>Point\<close> with two float attributes and a constant, a
  module \<open>Net\<close> with two parameters and a plain attribute, and a stand-in for the
  forbidden-type test that rejects the catch-all type.
\<close>

definition Point :: class_type where
  "Point =
     (create (Some ''Point'') 0 False)
       \<lparr>attributeNames := [''x'', ''y''], attributeTypes := [FloatType, FloatType],
        constantNames := [''dims''], constantValues := [IntVal 2]\<rparr>"

definition Net :: class_type where
  "Net =
     (create (Some ''Net'') 0 True)
       \<lparr>attributeNames := [''weight'', ''bias'', ''steps''],
        attributeTypes := [TensorType, OptionalType TensorType, IntType],
        parameterSlots := Some [True, True, False]\<rparr>"

definition is_any :: "jtype \<Rightarrow> bool" where
  "is_any ty = (ty = AnyType)"

text \<open>
  A stand-in for \<^verbatim>\<open>Type::isSubtypeOf\<close> on slot types (equal, or the element of an
  optional, or anything below the catch-all type), and the module \<open>Net\<close> with two methods.
\<close>

definition example_sub :: "jtype \<Rightarrow> jtype \<Rightarrow> bool" where
  "example_sub s t = (s = t \<or> t = OptionalType s \<or> t = AnyType)"

definition NetWithMethods :: class_type where
  "NetWithMethods = Net\<lparr>methods := [0, 2]\<rparr>"

section \<open>Properties\<close>

lemmas example_defs = area_float_def area_int_def perimeter_float_def example_functions_def
  same_returns_def no_base_def Square_def Circle_def Shaped_def ShapedModule_def Measured_def
  create_def is_module_def getMethod_def

lemmas eval_defs = Point_def Net_def is_any_def addAttribute_def addConstant_def addMethod_def
  checkNotExist_def checkNoAny_def parameter_type_ok_def Let_def numAttributes_def
  parallel_lengths_def getAttributeSlot_def unsafeRemoveAttribute_def erase_def without_def

lemmas refine_eval = eval_defs example_defs refine_def NetWithMethods_def example_sub_def
  create_default_is_module_def addAttribute_default_is_parameter_def

subsection \<open>Lists\<close>

lemma find_filter_same:
  "(\<And>x. P x \<Longrightarrow> Q x) \<Longrightarrow> find P (filter Q xs) = find P xs"
  by (induction xs) auto

lemma find_append_none:
  "\<forall>x\<in>set ys. \<not> P x \<Longrightarrow> find P (xs @ ys) = find P xs"
  by (induction xs) (auto simp: find_None_iff)

lemma find_Some_set: "find P xs = Some x \<Longrightarrow> x \<in> set xs \<and> P x"
  by (induction xs) (auto split: if_splits)

subsection \<open>The interface check\<close>

lemma write_to_simps [simp]:
  "write_to None ds = None"
  "write_to (Some w) ds = Some (w @ ds)"
  by (simp_all add: write_to_def)

lemma write_to_is_None [simp]: "(write_to w ds = None) = (w = None)"
  by (simp add: write_to_def)

lemma check_iface_methods_verdict:
  "fst (check_iface_methods F schema_sub c reqs why_not) =
     list_all (method_ok F schema_sub c (why_not \<noteq> None)) reqs"
proof (induction reqs arbitrary: why_not)
  case Nil
  show ?case by simp
next
  case (Cons s rest)
  show ?case
    by (simp add: method_ok_def Cons.IH split: option.splits prod.splits)
qed

lemma check_iface_methods_output:
  "check_iface_methods F schema_sub c reqs (Some w) =
     (case find (\<lambda>s. \<not> method_ok F schema_sub c True s) reqs of
        None \<Rightarrow> (True, Some (w @ concat (map (schema_reasons F schema_sub c True) reqs)))
      | Some s \<Rightarrow>
          (False,
           Some (w @ concat (map (schema_reasons F schema_sub c True)
                               (takeWhile (method_ok F schema_sub c True) reqs))
                   @ schema_reasons F schema_sub c True s @ [failure_diagnostic F c s])))"
proof (induction reqs arbitrary: w)
  case Nil
  show ?case by simp
next
  case (Cons s rest)
  show ?case
  proof (cases "getMethod F c (schema_name s)")
    case None
    then show ?thesis
      by (simp add: method_ok_def schema_reasons_def failure_diagnostic_def)
  next
    case (Some m)
    obtain ok rs where r: "schema_sub (getSchema (F m)) s True True = (ok, rs)"
      by (cases "schema_sub (getSchema (F m)) s True True")
    have ok_s: "method_ok F schema_sub c True s = ok"
      by (simp add: method_ok_def Some r)
    have rs_s: "schema_reasons F schema_sub c True s = rs"
      by (simp add: schema_reasons_def Some r)
    have fd: "failure_diagnostic F c s = IncompatibleMethod (getSchema (F m)) s"
      by (simp add: failure_diagnostic_def Some)
    show ?thesis
    proof (cases ok)
      case True
      then show ?thesis
        by (simp add: Some r ok_s rs_s Cons.IH split: option.splits)
    next
      case False
      then show ?thesis
        by (simp add: Some r ok_s rs_s fd)
    qed
  qed
qed

lemma iface_verdict:
  "is_module c \<or> \<not> iface_is_module iface \<Longrightarrow>
   fst (isSubtypeOfExt F schema_sub base_sub c (InterfaceRhs iface) why_not) =
     list_all (method_ok F schema_sub c (why_not \<noteq> None)) (iface_methods iface)"
  unfolding isSubtypeOfExt_def by (auto simp add: check_iface_methods_verdict simp del: not_None_eq)


lemma method_ok_distinct:
  assumes d: "distinct (map (\<lambda>m. function_name (F m)) (methods c))"
  shows "method_ok F schema_sub c has s =
        (\<exists>m \<in> set (methods c). function_name (F m) = schema_name s \<and>
            fst (schema_sub (getSchema (F m)) s True has))"
proof (cases "getMethod F c (schema_name s)")
  case None
  then have "\<forall>m \<in> set (methods c). schema_name s \<noteq> function_name (F m)"
    by (simp add: getMethod_def find_None_iff)
  then have "\<not> (\<exists>m \<in> set (methods c). function_name (F m) = schema_name s \<and>
            fst (schema_sub (getSchema (F m)) s True has))"
    by fastforce
  moreover have "\<not> method_ok F schema_sub c has s"
    by (simp add: method_ok_def None)
  ultimately show ?thesis by simp
next
  case (Some m)
  then have m: "m \<in> set (methods c)" "function_name (F m) = schema_name s"
    using find_Some_set [of "\<lambda>m. schema_name s = function_name (F m)" "methods c" m]
    by (simp_all add: getMethod_def)
  have inj: "inj_on (\<lambda>m. function_name (F m)) (set (methods c))"
    using d by (simp add: distinct_map)
  have uniq: "m' = m" if "m' \<in> set (methods c)" "function_name (F m') = schema_name s" for m'
    by (rule inj_onD [OF inj]) (simp_all add: m that)
  have ok: "method_ok F schema_sub c has s = fst (schema_sub (getSchema (F m)) s True has)"
    by (simp add: method_ok_def Some)
  show ?thesis
    unfolding ok using m uniq by blast
qed


lemma getMethod_filter_required:
  assumes "s \<in> set reqs"
  shows "getMethod F (c\<lparr>methods := filter (\<lambda>m. function_name (F m) \<in> schema_name ` set reqs)
                                       (methods c)\<rparr>) (schema_name s) =
         getMethod F c (schema_name s)"
proof -
  have "find (\<lambda>m. schema_name s = function_name (F m))
          (filter (\<lambda>m. function_name (F m) \<in> schema_name ` set reqs) (methods c)) =
        find (\<lambda>m. schema_name s = function_name (F m)) (methods c)"
  proof (rule find_filter_same)
    fix m
    assume "schema_name s = function_name (F m)"
    with assms show "function_name (F m) \<in> schema_name ` set reqs"
      by (metis imageI)
  qed
  then show ?thesis
    by (simp add: getMethod_def)
qed

lemma getMethod_append_extra:
  assumes "s \<in> set reqs"
    and "\<forall>m \<in> set extra. function_name (F m) \<notin> schema_name ` set reqs"
  shows "getMethod F (c\<lparr>methods := methods c @ extra\<rparr>) (schema_name s) =
         getMethod F c (schema_name s)"
proof -
  have "\<forall>m \<in> set extra. \<not> schema_name s = function_name (F m)"
    using assms by (metis imageI)
  then have "find (\<lambda>m. schema_name s = function_name (F m)) (methods c @ extra) =
        find (\<lambda>m. schema_name s = function_name (F m)) (methods c)"
    by (rule find_append_none)
  then show ?thesis
    by (simp add: getMethod_def)
qed

lemma list_all_method_ok_cong:
  assumes "\<And>s. s \<in> set reqs \<Longrightarrow> getMethod F c' (schema_name s) = getMethod F c (schema_name s)"
  shows "list_all (method_ok F schema_sub c' has) reqs = list_all (method_ok F schema_sub c has) reqs"
proof -
  have "method_ok F schema_sub c' has s = method_ok F schema_sub c has s" if "s \<in> set reqs" for s
    by (simp add: method_ok_def assms [OF that])
  then show ?thesis
    unfolding list_all_iff by blast
qed

subsection \<open>Claims about subtyping\<close>

text \<open>
  C4. A class that is not module-flagged is never a subtype of a module-flagged
  interface, whatever its methods are: the check returns false without a stream, and
  with a stream it returns false and appends exactly the message that only a module
  class can be a subtype of a module interface.
\<close>

theorem nonmodule_class_not_subtype_of_module_interface:
  "\<not> is_module c \<Longrightarrow> iface_is_module iface \<Longrightarrow>
   isSubtypeOfExt F schema_sub base_sub c (InterfaceRhs iface) None = (False, None) \<and>
   isSubtypeOfExt F schema_sub base_sub c (InterfaceRhs iface) (Some w) = (False, Some (w @ [NotModuleClass]))"
  by (simp add: isSubtypeOfExt_def)

theorem nonmodule_class_not_subtype_of_module_interface_witness:
  "\<not> is_module Square \<and> iface_is_module ShapedModule \<and>
   fst (isSubtypeOfExt example_functions same_returns no_base Square (InterfaceRhs Shaped) None) \<and>
   isSubtypeOfExt example_functions same_returns no_base Square (InterfaceRhs ShapedModule) None = (False, None) \<and>
   isSubtypeOfExt example_functions same_returns no_base Square (InterfaceRhs ShapedModule) (Some []) =
     (False, Some [NotModuleClass])"
  using nonmodule_class_not_subtype_of_module_interface [of Square ShapedModule example_functions same_returns no_base "[]"]
  by (simp add: example_defs isSubtypeOfExt_def)

text \<open>
  C5. For a class and an interface that pass the module-flag rule, the check returns true
  exactly when every required schema of the interface is satisfied: \<^verbatim>\<open>getMethod\<close> finds a
  method of that name whose schema passes the schema check in method context (with
  distinct method names: some method of the class has that name and passes). An
  interface without required methods is satisfied, and methods of the class whose names
  the interface does not require do not change the verdict, whether they are filtered out
  or appended.
\<close>

theorem interface_subtype_iff_required_methods:
  assumes rule: "is_module c \<or> \<not> iface_is_module iface"
  shows "fst (isSubtypeOfExt F schema_sub base_sub c (InterfaceRhs iface) why_not) =
           (\<forall>s \<in> set (iface_methods iface). method_ok F schema_sub c (why_not \<noteq> None) s)
       \<and> (distinct (map (\<lambda>m. function_name (F m)) (methods c)) \<longrightarrow>
           fst (isSubtypeOfExt F schema_sub base_sub c (InterfaceRhs iface) why_not) =
             (\<forall>s \<in> set (iface_methods iface). \<exists>m \<in> set (methods c).
                 function_name (F m) = schema_name s \<and>
                 fst (schema_sub (getSchema (F m)) s True (why_not \<noteq> None))))
       \<and> (iface_methods iface = [] \<longrightarrow>
           fst (isSubtypeOfExt F schema_sub base_sub c (InterfaceRhs iface) why_not))
       \<and> fst (isSubtypeOfExt F schema_sub base_sub
                (c\<lparr>methods := filter (\<lambda>m. function_name (F m) \<in> schema_name ` set (iface_methods iface))
                                  (methods c)\<rparr>) (InterfaceRhs iface) why_not) =
           fst (isSubtypeOfExt F schema_sub base_sub c (InterfaceRhs iface) why_not)
       \<and> ((\<forall>m \<in> set extra. function_name (F m) \<notin> schema_name ` set (iface_methods iface)) \<longrightarrow>
           fst (isSubtypeOfExt F schema_sub base_sub (c\<lparr>methods := methods c @ extra\<rparr>)
                  (InterfaceRhs iface) why_not) =
           fst (isSubtypeOfExt F schema_sub base_sub c (InterfaceRhs iface) why_not))"
proof -
  let ?req = "iface_methods iface"
  let ?has = "why_not \<noteq> None"
  note v0 = iface_verdict [OF rule, of F schema_sub base_sub why_not]
  have rule': "is_module (c\<lparr>methods := ms\<rparr>) \<or> \<not> iface_is_module iface" for ms
    using rule by (simp add: is_module_def)
  have p1: "fst (isSubtypeOfExt F schema_sub base_sub c (InterfaceRhs iface) why_not) =
           (\<forall>s \<in> set ?req. method_ok F schema_sub c ?has s)"
    unfolding v0 list_all_iff ..
  have p2: "distinct (map (\<lambda>m. function_name (F m)) (methods c)) \<longrightarrow>
           fst (isSubtypeOfExt F schema_sub base_sub c (InterfaceRhs iface) why_not) =
             (\<forall>s \<in> set ?req. \<exists>m \<in> set (methods c).
                 function_name (F m) = schema_name s \<and>
                 fst (schema_sub (getSchema (F m)) s True ?has))"
  proof
    assume d: "distinct (map (\<lambda>m. function_name (F m)) (methods c))"
    show "fst (isSubtypeOfExt F schema_sub base_sub c (InterfaceRhs iface) why_not) =
             (\<forall>s \<in> set ?req. \<exists>m \<in> set (methods c).
                 function_name (F m) = schema_name s \<and>
                 fst (schema_sub (getSchema (F m)) s True ?has))"
      unfolding p1 method_ok_distinct [OF d] ..
  qed
  have p3: "?req = [] \<longrightarrow> fst (isSubtypeOfExt F schema_sub base_sub c (InterfaceRhs iface) why_not)"
    unfolding v0 by simp
  have p4: "fst (isSubtypeOfExt F schema_sub base_sub
                (c\<lparr>methods := filter (\<lambda>m. function_name (F m) \<in> schema_name ` set ?req)
                                  (methods c)\<rparr>) (InterfaceRhs iface) why_not) =
           fst (isSubtypeOfExt F schema_sub base_sub c (InterfaceRhs iface) why_not)"
    unfolding v0 iface_verdict [OF rule']
    by (rule list_all_method_ok_cong) (rule getMethod_filter_required)
  have p5: "(\<forall>m \<in> set extra. function_name (F m) \<notin> schema_name ` set ?req) \<longrightarrow>
           fst (isSubtypeOfExt F schema_sub base_sub (c\<lparr>methods := methods c @ extra\<rparr>)
                  (InterfaceRhs iface) why_not) =
           fst (isSubtypeOfExt F schema_sub base_sub c (InterfaceRhs iface) why_not)"
  proof
    assume e: "\<forall>m \<in> set extra. function_name (F m) \<notin> schema_name ` set ?req"
    show "fst (isSubtypeOfExt F schema_sub base_sub (c\<lparr>methods := methods c @ extra\<rparr>)
                  (InterfaceRhs iface) why_not) =
           fst (isSubtypeOfExt F schema_sub base_sub c (InterfaceRhs iface) why_not)"
      unfolding v0 iface_verdict [OF rule']
      by (rule list_all_method_ok_cong) (rule getMethod_append_extra [OF _ e])
  qed
  from p1 p2 p3 p4 p5 show ?thesis
    by (intro conjI)
qed

theorem interface_subtype_iff_required_methods_witness:
  "\<not> iface_is_module Measured \<and>
   distinct (map (\<lambda>m. function_name (example_functions m)) (methods Square)) \<and>
   fst (isSubtypeOfExt example_functions same_returns no_base Square (InterfaceRhs Measured) None) \<and>
   \<not> fst (isSubtypeOfExt example_functions same_returns no_base Circle (InterfaceRhs Measured) None) \<and>
   fst (isSubtypeOfExt example_functions same_returns no_base Circle
          (InterfaceRhs (Measured\<lparr>iface_methods := []\<rparr>)) None) \<and>
   fst (isSubtypeOfExt example_functions same_returns no_base (Square\<lparr>methods := methods Square @ [3]\<rparr>)
          (InterfaceRhs Measured) None)"
  using interface_subtype_iff_required_methods [of Square Measured example_functions same_returns no_base None "[3]"]
    interface_subtype_iff_required_methods [of Circle Measured example_functions same_returns no_base None "[]"]
    interface_subtype_iff_required_methods [of Circle "Measured\<lparr>iface_methods := []\<rparr>" example_functions same_returns no_base None "[]"]
  by (simp add: example_defs isSubtypeOfExt_def method_ok_def)

text \<open>
  C2, as stated, fails: the loop returns at the first required method that is missing or
  incompatible. \<open>Circle\<close> has an \<open>area\<close> of the wrong return type and no \<open>perimeter\<close>;
  the text names \<open>area\<close> only.
\<close>

theorem diagnostics_omit_later_failing_method:
  "isSubtypeOfExt example_functions same_returns no_base Circle (InterfaceRhs Measured) (Some []) =
     (False, Some [SchemaReason ''return types differ'', IncompatibleMethod area_int area_float]) \<and>
   getMethod example_functions Circle (schema_name perimeter_float) = None \<and>
   \<not> list_ex (\<lambda>d. mentions d (schema_name perimeter_float))
       (the (snd (isSubtypeOfExt example_functions same_returns no_base Circle (InterfaceRhs Measured) (Some []))))"
  by (simp add: example_defs isSubtypeOfExt_def)

text \<open>
  C2, amended. When the check against an interface with a stream returns false because of
  the methods, the text appended is: what the schema check wrote for the satisfied
  schemas before the first unsatisfied one, what it wrote for that one, and one message
  of the loop, which names that first unsatisfied method. No required method after it is
  examined or named.
\<close>

theorem diagnostics_name_first_failing_method:
  assumes rule: "is_module c \<or> \<not> iface_is_module iface"
    and fails: "isSubtypeOfExt F schema_sub base_sub c (InterfaceRhs iface) (Some w) = (False, out)"
  shows "\<exists>s. find (\<lambda>s. \<not> method_ok F schema_sub c True s) (iface_methods iface) = Some s
           \<and> out = Some (w @ concat (map (schema_reasons F schema_sub c True)
                               (takeWhile (method_ok F schema_sub c True) (iface_methods iface)))
                          @ schema_reasons F schema_sub c True s @ [failure_diagnostic F c s])
           \<and> mentions (failure_diagnostic F c s) (schema_name s)"
proof -
  have m: "mentions (failure_diagnostic F c s) (schema_name s)" for s
    by (simp add: failure_diagnostic_def split: option.splits)
  from rule fails show ?thesis
    by (auto simp: isSubtypeOfExt_def check_iface_methods_output m split: option.splits)
qed

theorem diagnostics_name_first_failing_method_witness:
  "\<not> iface_is_module Measured \<and>
   isSubtypeOfExt example_functions same_returns no_base Circle (InterfaceRhs Measured) (Some []) =
     (False, Some [SchemaReason ''return types differ'', IncompatibleMethod area_int area_float]) \<and>
   find (\<lambda>s. \<not> method_ok example_functions same_returns Circle True s) (iface_methods Measured) = Some area_float \<and>
   failure_diagnostic example_functions Circle area_float = IncompatibleMethod area_int area_float"
  using diagnostics_name_first_failing_method [of Circle Measured example_functions same_returns no_base "[]"
      "Some [SchemaReason ''return types differ'', IncompatibleMethod area_int area_float]"]
  by (simp add: example_defs isSubtypeOfExt_def method_ok_def failure_diagnostic_def)

subsection \<open>Name checks and adds\<close>

lemma first_index_None:
  "(find (\<lambda>i. nm = xs ! i) [0..<length xs] = None) = (nm \<notin> set xs)"
  by (auto simp: find_None_iff in_set_conv_nth)

lemma first_index_Some:
  "(find (\<lambda>i. nm = xs ! i) [0..<length xs] = Some i) =
     (i < length xs \<and> xs ! i = nm \<and> (\<forall>j<i. xs ! j \<noteq> nm))"
proof -
  have "(find (\<lambda>i. nm = xs ! i) [0..<length xs] = Some i) =
        (\<exists>k<length xs. nm = xs ! k \<and> i = k \<and> (\<forall>j<k. nm \<noteq> xs ! j))"
    by (simp add: find_Some_iff cong: conj_cong)
  then show ?thesis by auto
qed

lemma first_index_exists:
  assumes "nm \<in> set xs"
  shows "\<exists>i. find (\<lambda>i. nm = xs ! i) [0..<length xs] = Some i"
  using assms by (cases "find (\<lambda>i. nm = xs ! i) [0..<length xs]") (simp_all add: first_index_None)

lemma first_index_distinct:
  assumes "distinct xs" "j < length xs"
  shows "find (\<lambda>i. xs ! j = xs ! i) [0..<length xs] = Some j"
  unfolding first_index_Some using assms by (auto simp: nth_eq_iff_index_eq)

lemma first_index_appended:
  assumes "nm \<notin> set xs"
  shows "find (\<lambda>i. nm = (xs @ [nm]) ! i) [0..<length (xs @ [nm])] = Some (length xs)"
  unfolding first_index_Some using assms by (auto simp: nth_append)

lemma checkNotExist_ok:
  "(checkNotExist c nm what = Inr ()) =
     (nm \<notin> set (constantNames c) \<and> nm \<notin> set (attributeNames c))"
  by (auto simp: checkNotExist_def first_index_None [symmetric] split: option.splits)

lemma checkNotExist_constant:
  assumes "find (\<lambda>i. nm = constantNames c ! i) [0..<length (constantNames c)] = Some i"
  shows "checkNotExist c nm what = Inl (ConstantFieldExists what nm (constantValues c ! i))"
  by (simp add: checkNotExist_def assms)

lemma checkNotExist_attribute:
  assumes "nm \<notin> set (constantNames c)"
    and "find (\<lambda>i. nm = attributeNames c ! i) [0..<length (attributeNames c)] = Some i"
  shows "checkNotExist c nm what = Inl (AttributeFieldExists what nm (attributeTypes c ! i))"
proof -
  have "find (\<lambda>i. nm = constantNames c ! i) [0..<length (constantNames c)] = None"
    using assms(1) by (simp add: first_index_None)
  then show ?thesis
    by (simp add: checkNotExist_def assms(2))
qed

lemma addAttribute_name_conflict:
  assumes "checkNotExist c nm (if is_parameter then ''parameter'' else ''attribute'') = Inl e"
  shows "addAttribute forbidden c nm ty is_parameter = (Inl e, c)"
  using assms by (simp add: addAttribute_def Let_def)

lemma addConstant_name_conflict:
  assumes "checkNotExist c nm ''constant'' = Inl e"
  shows "addConstant c nm v = (Inl e, c)"
  using assms by (simp add: addConstant_def)

lemma addAttribute_success:
  assumes "nm \<notin> set (constantNames c)" "nm \<notin> set (attributeNames c)" "\<not> forbidden ty"
    and "is_parameter \<longrightarrow> is_module c \<and> parameter_type_ok ty"
  shows "addAttribute forbidden c nm ty is_parameter =
           (Inr (length (attributeNames c)),
            c\<lparr>attributeNames := attributeNames c @ [nm],
              attributeTypes := attributeTypes c @ [ty],
              parameterSlots := map_option (\<lambda>ps. ps @ [is_parameter]) (parameterSlots c)\<rparr>)"
proof -
  have ok: "checkNotExist c nm what = Inr ()" for what
    using assms(1,2) by (simp add: checkNotExist_ok)
  show ?thesis
    using assms(3,4)
    by (cases "parameterSlots c") (auto simp: addAttribute_def ok checkNoAny_def Let_def is_module_def)
qed

lemma addConstant_success:
  assumes "nm \<notin> set (constantNames c)" "nm \<notin> set (attributeNames c)"
  shows "addConstant c nm v =
           (Inr (length (constantNames c)),
            c\<lparr>constantNames := constantNames c @ [nm], constantValues := constantValues c @ [v]\<rparr>)"
proof -
  have ok: "checkNotExist c nm what = Inr ()" for what
    using assms by (simp add: checkNotExist_ok)
  show ?thesis
    by (simp add: addConstant_def ok Let_def)
qed

lemma addAttribute_result:
  assumes "addAttribute forbidden c nm ty is_parameter = (Inr slot, c')"
  shows "slot = length (attributeNames c) \<and>
         nm \<notin> set (constantNames c) \<and> nm \<notin> set (attributeNames c) \<and> \<not> forbidden ty \<and>
         (is_parameter \<longrightarrow> is_module c \<and> parameter_type_ok ty) \<and>
         c' = c\<lparr>attributeNames := attributeNames c @ [nm],
                attributeTypes := attributeTypes c @ [ty],
                parameterSlots := map_option (\<lambda>ps. ps @ [is_parameter]) (parameterSlots c)\<rparr>"
proof -
  let ?what = "if is_parameter then ''parameter'' else ''attribute''"
  from assms have ok: "checkNotExist c nm ?what = Inr ()"
    by (cases "checkNotExist c nm ?what") (simp_all add: addAttribute_def Let_def)
  from assms ok have na: "\<not> forbidden ty"
    by (auto simp: addAttribute_def Let_def checkNoAny_def split: if_splits)
  from ok have fresh: "nm \<notin> set (constantNames c)" "nm \<notin> set (attributeNames c)"
    by (simp_all add: checkNotExist_ok)
  from assms ok na have par: "is_parameter \<longrightarrow> is_module c \<and> parameter_type_ok ty"
    by (auto simp: addAttribute_def Let_def checkNoAny_def is_module_def split: if_splits)
  have "addAttribute forbidden c nm ty is_parameter =
           (Inr (length (attributeNames c)),
            c\<lparr>attributeNames := attributeNames c @ [nm],
              attributeTypes := attributeTypes c @ [ty],
              parameterSlots := map_option (\<lambda>ps. ps @ [is_parameter]) (parameterSlots c)\<rparr>)"
    by (rule addAttribute_success) (use fresh na par in simp_all)
  with assms show ?thesis using fresh na par by simp
qed

lemma add_attribute_then_constant:
  assumes f1: "an \<notin> set (attributeNames c)" "an \<notin> set (constantNames c)"
    and f2: "cn \<notin> set (attributeNames c)" "cn \<notin> set (constantNames c)"
    and ne: "an \<noteq> cn"
    and ty: "\<not> forbidden ty" and par: "is_parameter \<longrightarrow> is_module c \<and> parameter_type_ok ty"
  shows "\<exists>c1 c2. addAttribute forbidden c an ty is_parameter = (Inr (length (attributeNames c)), c1) \<and>
               addConstant c1 cn v = (Inr (length (constantNames c)), c2)"
proof -
  define a where "a = c\<lparr>attributeNames := attributeNames c @ [an],
              attributeTypes := attributeTypes c @ [ty],
              parameterSlots := map_option (\<lambda>ps. ps @ [is_parameter]) (parameterSlots c)\<rparr>"
  have a1: "addAttribute forbidden c an ty is_parameter = (Inr (length (attributeNames c)), a)"
    unfolding a_def using addAttribute_success [of an c forbidden ty is_parameter] f1 ty par by simp
  have fa: "cn \<notin> set (constantNames a)" "cn \<notin> set (attributeNames a)"
    using f2 ne by (simp_all add: a_def)
  have a2: "addConstant a cn v =
        (Inr (length (constantNames a)),
         a\<lparr>constantNames := constantNames a @ [cn], constantValues := constantValues a @ [v]\<rparr>)"
    using addConstant_success [OF fa] .
  have len: "length (constantNames a) = length (constantNames c)"
    by (simp add: a_def)
  show ?thesis
    using a1 a2 unfolding len by blast
qed

lemma add_constant_then_attribute:
  assumes f1: "an \<notin> set (attributeNames c)" "an \<notin> set (constantNames c)"
    and f2: "cn \<notin> set (attributeNames c)" "cn \<notin> set (constantNames c)"
    and ne: "an \<noteq> cn"
    and ty: "\<not> forbidden ty" and par: "is_parameter \<longrightarrow> is_module c \<and> parameter_type_ok ty"
  shows "\<exists>c1 c2. addConstant c cn v = (Inr (length (constantNames c)), c1) \<and>
               addAttribute forbidden c1 an ty is_parameter = (Inr (length (attributeNames c)), c2)"
proof -
  define k where "k = c\<lparr>constantNames := constantNames c @ [cn],
                         constantValues := constantValues c @ [v]\<rparr>"
  have b1: "addConstant c cn v = (Inr (length (constantNames c)), k)"
    unfolding k_def using addConstant_success [of cn c v] f2 by simp
  have fk: "an \<notin> set (constantNames k)" "an \<notin> set (attributeNames k)"
    using f1 ne by (simp_all add: k_def)
  have park: "is_parameter \<longrightarrow> is_module k \<and> parameter_type_ok ty"
    using par by (simp add: k_def is_module_def)
  have b2: "addAttribute forbidden k an ty is_parameter =
        (Inr (length (attributeNames k)),
         k\<lparr>attributeNames := attributeNames k @ [an],
           attributeTypes := attributeTypes k @ [ty],
           parameterSlots := map_option (\<lambda>ps. ps @ [is_parameter]) (parameterSlots k)\<rparr>)"
    using addAttribute_success [of an k forbidden ty is_parameter] fk ty park by blast
  have len: "length (attributeNames k) = length (attributeNames c)"
    by (simp add: k_def)
  show ?thesis
    using b1 b2 unfolding len by blast
qed

lemma existing_constant_conflict:
  assumes "nm \<in> set (constantNames c)"
  shows "\<exists>i<length (constantNames c). constantNames c ! i = nm \<and>
           addAttribute forbidden c nm ty is_parameter =
             (Inl (ConstantFieldExists (if is_parameter then ''parameter'' else ''attribute'') nm
                     (constantValues c ! i)), c) \<and>
           addConstant c nm v = (Inl (ConstantFieldExists ''constant'' nm (constantValues c ! i)), c)"
proof -
  from first_index_exists [OF assms] obtain i where
    i: "find (\<lambda>i. nm = constantNames c ! i) [0..<length (constantNames c)] = Some i" ..
  then have b: "i < length (constantNames c)" "constantNames c ! i = nm"
    by (simp_all add: first_index_Some)
  moreover have "addAttribute forbidden c nm ty is_parameter =
             (Inl (ConstantFieldExists (if is_parameter then ''parameter'' else ''attribute'') nm
                     (constantValues c ! i)), c)"
    by (rule addAttribute_name_conflict [OF checkNotExist_constant [OF i]])
  moreover have "addConstant c nm v =
      (Inl (ConstantFieldExists ''constant'' nm (constantValues c ! i)), c)"
    by (rule addConstant_name_conflict [OF checkNotExist_constant [OF i]])
  ultimately show ?thesis by (intro exI [of _ i] conjI)
qed

lemma existing_attribute_conflict:
  assumes nc: "nm \<notin> set (constantNames c)" and "nm \<in> set (attributeNames c)"
  shows "\<exists>i<length (attributeNames c). attributeNames c ! i = nm \<and>
           addAttribute forbidden c nm ty is_parameter =
             (Inl (AttributeFieldExists (if is_parameter then ''parameter'' else ''attribute'') nm
                     (attributeTypes c ! i)), c) \<and>
           addConstant c nm v = (Inl (AttributeFieldExists ''constant'' nm (attributeTypes c ! i)), c)"
proof -
  from first_index_exists [OF assms(2)] obtain i where
    i: "find (\<lambda>i. nm = attributeNames c ! i) [0..<length (attributeNames c)] = Some i" ..
  then have b: "i < length (attributeNames c)" "attributeNames c ! i = nm"
    by (simp_all add: first_index_Some)
  moreover have "addAttribute forbidden c nm ty is_parameter =
             (Inl (AttributeFieldExists (if is_parameter then ''parameter'' else ''attribute'') nm
                     (attributeTypes c ! i)), c)"
    by (rule addAttribute_name_conflict [OF checkNotExist_attribute [OF nc i]])
  moreover have "addConstant c nm v =
      (Inl (AttributeFieldExists ''constant'' nm (attributeTypes c ! i)), c)"
    by (rule addConstant_name_conflict [OF checkNotExist_attribute [OF nc i]])
  ultimately show ?thesis by (intro exI [of _ i] conjI)
qed

lemma addConstant_result:
  assumes "addConstant c nm v = (Inr slot, c1)"
  shows "slot = length (constantNames c) \<and>
         nm \<notin> set (constantNames c) \<and> nm \<notin> set (attributeNames c) \<and>
         c1 = c\<lparr>constantNames := constantNames c @ [nm], constantValues := constantValues c @ [v]\<rparr>"
proof -
  from assms have ok: "checkNotExist c nm ''constant'' = Inr ()"
    by (cases "checkNotExist c nm ''constant''") (simp_all add: addConstant_def)
  then have fresh: "nm \<notin> set (constantNames c)" "nm \<notin> set (attributeNames c)"
    by (simp_all add: checkNotExist_ok)
  from assms addConstant_success [OF fresh, of v] show ?thesis
    using fresh by simp
qed

lemma attribute_after_constant_conflict:
  assumes add: "addConstant c nm v = (Inr slot, c1)"
    and len: "length (constantValues c) = length (constantNames c)"
  shows "addAttribute forbidden c1 nm ty is_parameter =
          (Inl (ConstantFieldExists (if is_parameter then ''parameter'' else ''attribute'') nm v), c1)"
proof -
  note r = addConstant_result [OF add]
  have c1: "constantNames c1 = constantNames c @ [nm]" "constantValues c1 = constantValues c @ [v]"
    using r by simp_all
  have i: "find (\<lambda>i. nm = constantNames c1 ! i) [0..<length (constantNames c1)] =
        Some (length (constantNames c))"
    unfolding c1 using r by (intro first_index_appended) simp
  have val: "constantValues c1 ! length (constantNames c) = v"
    unfolding c1 by (simp add: len [symmetric])
  show ?thesis
    using addAttribute_name_conflict [OF checkNotExist_constant [OF i]] unfolding val .
qed

lemma constant_after_attribute_conflict:
  assumes add: "addAttribute forbidden c nm ty is_parameter = (Inr slot, c1)"
    and len: "length (attributeTypes c) = length (attributeNames c)"
  shows "addConstant c1 nm v = (Inl (AttributeFieldExists ''constant'' nm ty), c1)"
proof -
  note r = addAttribute_result [OF add]
  have c1: "attributeNames c1 = attributeNames c @ [nm]" "attributeTypes c1 = attributeTypes c @ [ty]"
      "constantNames c1 = constantNames c"
    using r by simp_all
  have nc: "nm \<notin> set (constantNames c1)"
    unfolding c1 using r by simp
  have i: "find (\<lambda>i. nm = attributeNames c1 ! i) [0..<length (attributeNames c1)] =
        Some (length (attributeNames c))"
    unfolding c1 using r by (intro first_index_appended) simp
  have val: "attributeTypes c1 ! length (attributeNames c) = ty"
    unfolding c1 by (simp add: len [symmetric])
  show ?thesis
    using addConstant_name_conflict [OF checkNotExist_attribute [OF nc i]] unfolding val .
qed

lemma checkNotExist_methods [simp]:
  "checkNotExist (c\<lparr>methods := ms\<rparr>) nm what = checkNotExist c nm what"
  by (simp add: checkNotExist_def split: option.splits)

lemma addMethod_success:
  "getMethod F c (function_name (F m)) = None \<Longrightarrow>
   addMethod F c m = (Inr (), c\<lparr>methods := methods c @ [m]\<rparr>)"
  by (simp add: addMethod_def)

lemma addMethod_cases:
  "addMethod F c m =
     (if \<exists>m'\<in>set (methods c). function_name (F m') = function_name (F m)
      then (Inl (MethodRedefined (function_name (F m))), c)
      else (Inr (), c\<lparr>methods := methods c @ [m]\<rparr>))"
proof (cases "getMethod F c (function_name (F m))")
  case None
  then have "\<not> (\<exists>m'\<in>set (methods c). function_name (F m') = function_name (F m))"
    by (auto simp: getMethod_def find_None_iff)
  with None show ?thesis
    by (simp add: addMethod_def)
next
  case (Some m')
  then have "m' \<in> set (methods c) \<and> function_name (F m) = function_name (F m')"
    unfolding getMethod_def by (rule find_Some_set)
  then have "\<exists>m'\<in>set (methods c). function_name (F m') = function_name (F m)"
    by (intro bexI [of _ m']) simp_all
  with Some show ?thesis
    by (simp add: addMethod_def)
qed

lemma addMethod_ignores_fields:
  "addMethod F (c\<lparr>attributeNames := ns, attributeTypes := ts, constantNames := cs,
                  constantValues := vs\<rparr>) m =
     (fst (addMethod F c m),
      (snd (addMethod F c m))\<lparr>attributeNames := ns, attributeTypes := ts, constantNames := cs,
                              constantValues := vs\<rparr>)"
  by (simp add: addMethod_def getMethod_def)

lemma addConstant_ignores_methods:
  "addConstant (c\<lparr>methods := ms\<rparr>) nm v =
     (fst (addConstant c nm v), (snd (addConstant c nm v))\<lparr>methods := ms\<rparr>)"
  by (cases "checkNotExist c nm ''constant''") (simp_all add: addConstant_def Let_def)

lemma addAttribute_ignores_methods:
  "addAttribute forbidden (c\<lparr>methods := ms\<rparr>) nm ty is_parameter =
     (fst (addAttribute forbidden c nm ty is_parameter),
      (snd (addAttribute forbidden c nm ty is_parameter))\<lparr>methods := ms\<rparr>)"
proof (cases "checkNotExist c nm (if is_parameter then ''parameter'' else ''attribute'')")
  case (Inl e)
  then show ?thesis
    by (simp add: addAttribute_def Let_def)
next
  case (Inr u)
  show ?thesis
  proof (cases "checkNoAny forbidden (if is_parameter then ''parameter'' else ''attribute'') nm ty")
    case (Inl e)
    with Inr show ?thesis
      by (simp add: addAttribute_def Let_def)
  next
    case inr: (Inr u')
    with Inr show ?thesis
      by (simp add: addAttribute_def Let_def is_module_def)
  qed
qed

subsection \<open>Removal\<close>

lemma length_without: "k < length xs \<Longrightarrow> length (without xs k) = length xs - 1"
  by (simp add: without_def)

lemma without_nth_after: "k < j \<Longrightarrow> j < length xs \<Longrightarrow> without xs k ! (j - Suc 0) = xs ! j"
  by (auto simp: without_def nth_append min_def)

lemma without_nth_before: "j < k \<Longrightarrow> k < length xs \<Longrightarrow> without xs k ! j = xs ! j"
  by (simp add: without_def nth_append)

lemma distinct_without: "distinct xs \<Longrightarrow> distinct (without xs k)"
proof -
  assume d: "distinct xs"
  have "set (take k xs) \<inter> set (drop (Suc k) xs) = {}"
    using d by (rule set_take_disj_set_drop_if_distinct) simp
  with d show ?thesis by (simp add: without_def)
qed

lemma getAttributeSlot_found:
  "getAttributeSlot c nm = Inr k \<Longrightarrow> k < length (attributeNames c) \<and> attributeNames c ! k = nm"
  by (auto simp: getAttributeSlot_def first_index_Some split: option.splits)

lemma getAttributeSlot_distinct:
  "distinct (attributeNames c) \<Longrightarrow> j < length (attributeNames c) \<Longrightarrow>
   getAttributeSlot c (attributeNames c ! j) = Inr j"
  by (simp add: getAttributeSlot_def first_index_distinct)

lemma unsafeRemoveAttribute_found:
  assumes "getAttributeSlot c nm = Inr k" "k < length (attributeTypes c)"
    and "\<And>ps. parameterSlots c = Some ps \<Longrightarrow> k < length ps"
  shows "unsafeRemoveAttribute c nm =
     Some (Inr (), c\<lparr>attributeNames := without (attributeNames c) k,
                      attributeTypes := without (attributeTypes c) k,
                      parameterSlots := map_option (\<lambda>ps. without ps k) (parameterSlots c)\<rparr>)"
proof -
  have k: "k < length (attributeNames c)"
    using assms(1) getAttributeSlot_found by blast
  show ?thesis
    using assms k
    by (cases "parameterSlots c")
      (simp_all add: unsafeRemoveAttribute_def erase_def Let_def is_module_def)
qed

lemma unsafeRemoveAttribute_absent:
  "getAttributeSlot c nm = Inl e \<Longrightarrow> unsafeRemoveAttribute c nm = Some (Inl e, c)"
  by (simp add: unsafeRemoveAttribute_def)

lemma unsafeRemoveAttribute_undefined:
  assumes "getAttributeSlot c nm = Inr k"
    and "length (attributeTypes c) \<le> k \<or> (\<exists>ps. parameterSlots c = Some ps \<and> length ps \<le> k)"
  shows "unsafeRemoveAttribute c nm = None"
  using assms
  by (auto simp: unsafeRemoveAttribute_def erase_def Let_def is_module_def split: option.splits)

lemma unsafeRemoveAttribute_defined:
  assumes pl: "parallel_lengths c" and slot: "getAttributeSlot c rm = Inr k"
  shows "\<exists>r. unsafeRemoveAttribute c rm = Some (Inr (), r)"
proof -
  have k: "k < length (attributeNames c)"
    using slot getAttributeSlot_found by blast
  have "k < length (attributeTypes c)"
    using pl k by (simp add: parallel_lengths_def)
  moreover have "k < length ps" if "parameterSlots c = Some ps" for ps
    using pl k that by (simp add: parallel_lengths_def)
  ultimately show ?thesis
    using unsafeRemoveAttribute_found [OF slot] by blast
qed

lemma removed_attribute_slots:
  assumes pl: "parallel_lengths c" and slot: "getAttributeSlot c rm = Inr k"
    and rem: "unsafeRemoveAttribute c rm = Some (res, r)"
  shows "res = Inr () \<and> k < numAttributes c \<and> attributeNames c ! k = rm \<and>
     numAttributes r = numAttributes c - 1 \<and> parallel_lengths r \<and>
     attributeNames r = without (attributeNames c) k \<and>
     attributeTypes r = without (attributeTypes c) k \<and>
     parameterSlots r = map_option (\<lambda>ps. without ps k) (parameterSlots c) \<and>
     constantNames r = constantNames c \<and> constantValues r = constantValues c \<and>
     methods r = methods c \<and>
     (\<forall>j. k < j \<and> j < numAttributes c \<longrightarrow>
        attributeNames r ! (j - 1) = attributeNames c ! j \<and>
        attributeTypes r ! (j - 1) = attributeTypes c ! j \<and>
        map_option (\<lambda>ps. ps ! (j - 1)) (parameterSlots r) =
          map_option (\<lambda>ps. ps ! j) (parameterSlots c)) \<and>
     (\<forall>j<k. attributeNames r ! j = attributeNames c ! j \<and>
        attributeTypes r ! j = attributeTypes c ! j \<and>
        map_option (\<lambda>ps. ps ! j) (parameterSlots r) = map_option (\<lambda>ps. ps ! j) (parameterSlots c)) \<and>
     (distinct (attributeNames c) \<longrightarrow>
        (\<forall>j. k < j \<and> j < numAttributes c \<longrightarrow>
           getAttributeSlot r (attributeNames c ! j) = Inr (j - 1)))"
proof -
  note f = getAttributeSlot_found [OF slot]
  have k: "k < length (attributeNames c)" using f by simp
  have lt: "length (attributeTypes c) = length (attributeNames c)"
    using pl by (simp add: parallel_lengths_def)
  have lp: "parameterSlots c = Some ps \<Longrightarrow> length ps = length (attributeNames c)" for ps
    using pl by (simp add: parallel_lengths_def)
  have lc: "length (constantValues c) = length (constantNames c)"
    using pl by (simp add: parallel_lengths_def)
  have "unsafeRemoveAttribute c rm =
     Some (Inr (), c\<lparr>attributeNames := without (attributeNames c) k,
                      attributeTypes := without (attributeTypes c) k,
                      parameterSlots := map_option (\<lambda>ps. without ps k) (parameterSlots c)\<rparr>)"
    by (rule unsafeRemoveAttribute_found [OF slot]) (use k lt lp in simp_all)
  with rem
  have res: "res = Inr ()"
    and r: "r = c\<lparr>attributeNames := without (attributeNames c) k,
                attributeTypes := without (attributeTypes c) k,
                parameterSlots := map_option (\<lambda>ps. without ps k) (parameterSlots c)\<rparr>"
    by simp_all
  have names: "attributeNames r = without (attributeNames c) k"
    and types: "attributeTypes r = without (attributeTypes c) k"
    and params: "parameterSlots r = map_option (\<lambda>ps. without ps k) (parameterSlots c)"
    and rest: "constantNames r = constantNames c" "constantValues r = constantValues c"
      "methods r = methods c"
    by (simp_all add: r)
  have num: "numAttributes r = numAttributes c - 1"
    by (simp add: numAttributes_def names length_without k)
  have pl': "parallel_lengths r"
    using k lt lc lp
    by (cases "parameterSlots c") (simp_all add: parallel_lengths_def names types params rest length_without)
  have after: "attributeNames r ! (j - 1) = attributeNames c ! j \<and>
        attributeTypes r ! (j - 1) = attributeTypes c ! j \<and>
        map_option (\<lambda>ps. ps ! (j - 1)) (parameterSlots r) =
          map_option (\<lambda>ps. ps ! j) (parameterSlots c)"
    if "k < j \<and> j < numAttributes c" for j
  proof -
    from that have j: "k < j" "j < length (attributeNames c)"
      by (simp_all add: numAttributes_def)
    show ?thesis
      using j lt lp
      by (cases "parameterSlots c") (simp_all add: names types params without_nth_after)
  qed
  have before: "attributeNames r ! j = attributeNames c ! j \<and>
        attributeTypes r ! j = attributeTypes c ! j \<and>
        map_option (\<lambda>ps. ps ! j) (parameterSlots r) = map_option (\<lambda>ps. ps ! j) (parameterSlots c)"
    if "j < k" for j
    using that k lt lp
    by (cases "parameterSlots c") (simp_all add: names types params without_nth_before)
  have renum: "getAttributeSlot r (attributeNames c ! j) = Inr (j - 1)"
    if d: "distinct (attributeNames c)" and j: "k < j \<and> j < numAttributes c" for j
  proof -
    have dr: "distinct (attributeNames r)"
      unfolding names using d by (rule distinct_without)
    have lj: "j - 1 < length (attributeNames r)"
      using j k by (auto simp: names length_without numAttributes_def)
    have "attributeNames r ! (j - 1) = attributeNames c ! j"
      using after [OF j] by simp
    with getAttributeSlot_distinct [OF dr lj] show ?thesis by simp
  qed
  show ?thesis
    using res k f num pl' names types params rest after before renum
    by (simp add: numAttributes_def)
qed

lemma removal_example:
  "parallel_lengths Net \<and> getAttributeSlot Net ''weight'' = Inr 0 \<and>
   unsafeRemoveAttribute Net ''weight'' =
     Some (Inr (), Net\<lparr>attributeNames := [''bias'', ''steps''],
                       attributeTypes := [OptionalType TensorType, IntType],
                       parameterSlots := Some [True, False]\<rparr>) \<and>
   getAttributeSlot (snd (the (unsafeRemoveAttribute Net ''weight''))) ''steps'' = Inr 1"
  by (simp add: eval_defs create_def is_module_def)

subsection \<open>Failed adds and the length invariant\<close>

text \<open>
  Every failure of an add other than the two parameter checks of \<^verbatim>\<open>addAttribute\<close> leaves
  the type as it was, and every operation that does not fail there keeps the length
  invariant.
\<close>

lemma failed_addConstant_keeps_state:
  "addConstant c nm v = (Inl e, c') \<Longrightarrow> c' = c"
  by (cases "checkNotExist c nm ''constant''") (simp_all add: addConstant_def Let_def)

lemma failed_addMethod_keeps_state:
  "addMethod F c m = (Inl e, c') \<Longrightarrow> c' = c"
  by (simp add: addMethod_def split: if_splits)

lemma failed_addAttribute_keeps_state:
  assumes "addAttribute forbidden c nm ty is_parameter = (Inl e, c')"
    and "e \<noteq> ParameterOnNonModule" and "e \<noteq> ParameterTypeRejected ty"
  shows "c' = c"
proof (cases "checkNotExist c nm (if is_parameter then ''parameter'' else ''attribute'')")
  case (Inl e')
  with assms(1) show ?thesis
    by (simp add: addAttribute_def Let_def)
next
  case (Inr u)
  show ?thesis
  proof (cases "forbidden ty")
    case True
    with Inr assms(1) show ?thesis
      by (simp add: addAttribute_def Let_def checkNoAny_def)
  next
    case False
    with Inr assms show ?thesis
      by (simp add: addAttribute_def Let_def checkNoAny_def split: if_splits)
  qed
qed

lemma parallel_lengths_create: "parallel_lengths (create qn cu is_mod)"
  by (simp add: parallel_lengths_def create_def)

lemma parallel_lengths_addAttribute:
  assumes "parallel_lengths c" "addAttribute forbidden c nm ty is_parameter = (Inr slot, c')"
  shows "parallel_lengths c'"
  using assms(1) addAttribute_result [OF assms(2)]
  by (cases "parameterSlots c") (simp_all add: parallel_lengths_def)

lemma parallel_lengths_addConstant:
  assumes "parallel_lengths c" "addConstant c nm v = (res, c')"
  shows "parallel_lengths c'"
proof (cases res)
  case (Inl e)
  with assms show ?thesis
    using failed_addConstant_keeps_state by blast
next
  case (Inr slot)
  with assms(1) addConstant_result [of c nm v slot c'] assms(2) show ?thesis
    by (simp add: parallel_lengths_def)
qed

lemma parallel_lengths_addMethod:
  assumes "parallel_lengths c" "addMethod F c m = (res, c')"
  shows "parallel_lengths c'"
  using assms by (auto simp: addMethod_def parallel_lengths_def split: if_splits)

lemma parallel_lengths_unsafeRemoveAttribute:
  assumes "parallel_lengths c" "unsafeRemoveAttribute c nm = Some (res, c')"
  shows "parallel_lengths c'"
proof (cases "getAttributeSlot c nm")
  case (Inl e)
  with assms show ?thesis
    by (simp add: unsafeRemoveAttribute_absent)
next
  case (Inr k)
  from removed_attribute_slots [OF assms(1) Inr assms(2)] show ?thesis
    by (elim conjE)
qed

lemma getConstantSlot_found:
  "getConstantSlot c nm = Inr k \<Longrightarrow> k < length (constantNames c) \<and> constantNames c ! k = nm"
  by (auto simp: getConstantSlot_def first_index_Some split: option.splits)

lemma parallel_lengths_unsafeRemoveConstant:
  assumes "parallel_lengths c" "unsafeRemoveConstant c nm = Some (res, c')"
  shows "parallel_lengths c'"
proof (cases "getConstantSlot c nm")
  case (Inl e)
  with assms show ?thesis
    by (simp add: unsafeRemoveConstant_def)
next
  case (Inr k)
  then have k: "k < length (constantNames c)"
    using getConstantSlot_found by blast
  from assms(2) Inr
  have "c' = c\<lparr>constantNames := without (constantNames c) k,
                constantValues := without (constantValues c) k\<rparr>"
    by (simp add: unsafeRemoveConstant_def erase_def split: if_splits)
  with assms(1) k show ?thesis
    by (simp add: parallel_lengths_def length_without)
qed

subsection \<open>Claims about the slot table and the method table\<close>

text \<open>
  C6. Attributes and constants share one namespace. With two distinct names that are in
  neither table (and an attribute that passes the type checks of \<^verbatim>\<open>addAttribute\<close>),
  adding the attribute and then the constant succeeds, and so does the other order; the
  name check itself passes for a fresh name whatever the type is. An
  add whose name is already a constant fails with the constant-exists error carrying the
  value stored for that name, and an add whose name is already an attribute (and not a
  constant) fails with the attribute-exists error carrying the stored type; neither
  changes the type. In particular, after a constant was added, adding an attribute of
  that name fails reporting the constant's value, and after an attribute was added,
  adding a constant of that name fails reporting the attribute's type.
\<close>

theorem field_names_shared_by_attributes_and_constants:
  "(an \<noteq> cn \<and> an \<notin> set (attributeNames c) \<and> an \<notin> set (constantNames c) \<and>
    cn \<notin> set (attributeNames c) \<and> cn \<notin> set (constantNames c) \<and>
    \<not> forbidden ty \<and> (is_parameter \<longrightarrow> is_module c \<and> parameter_type_ok ty) \<longrightarrow>
      (\<exists>c1 c2. addAttribute forbidden c an ty is_parameter = (Inr (length (attributeNames c)), c1) \<and>
               addConstant c1 cn v = (Inr (length (constantNames c)), c2)) \<and>
      (\<exists>c1 c2. addConstant c cn v = (Inr (length (constantNames c)), c1) \<and>
               addAttribute forbidden c1 an ty is_parameter = (Inr (length (attributeNames c)), c2)))
   \<and> (nm \<in> set (constantNames c) \<longrightarrow>
        (\<exists>i<length (constantNames c). constantNames c ! i = nm \<and>
           addAttribute forbidden c nm ty is_parameter =
             (Inl (ConstantFieldExists (if is_parameter then ''parameter'' else ''attribute'') nm
                     (constantValues c ! i)), c) \<and>
           addConstant c nm v = (Inl (ConstantFieldExists ''constant'' nm (constantValues c ! i)), c)))
   \<and> (nm \<notin> set (constantNames c) \<and> nm \<in> set (attributeNames c) \<longrightarrow>
        (\<exists>i<length (attributeNames c). attributeNames c ! i = nm \<and>
           addAttribute forbidden c nm ty is_parameter =
             (Inl (AttributeFieldExists (if is_parameter then ''parameter'' else ''attribute'') nm
                     (attributeTypes c ! i)), c) \<and>
           addConstant c nm v = (Inl (AttributeFieldExists ''constant'' nm (attributeTypes c ! i)), c)))
   \<and> (addConstant c nm v = (Inr slot, c1) \<and> length (constantValues c) = length (constantNames c) \<longrightarrow>
        addAttribute forbidden c1 nm ty is_parameter =
          (Inl (ConstantFieldExists (if is_parameter then ''parameter'' else ''attribute'') nm v), c1))
   \<and> (addAttribute forbidden c nm ty is_parameter = (Inr slot, c1) \<and>
       length (attributeTypes c) = length (attributeNames c) \<longrightarrow>
        addConstant c1 nm v = (Inl (AttributeFieldExists ''constant'' nm ty), c1))
   \<and> (an \<notin> set (attributeNames c) \<and> an \<notin> set (constantNames c) \<longrightarrow>
        checkNotExist c an what = Inr ())"
proof (intro conjI impI)
  assume h: "an \<noteq> cn \<and> an \<notin> set (attributeNames c) \<and> an \<notin> set (constantNames c) \<and>
    cn \<notin> set (attributeNames c) \<and> cn \<notin> set (constantNames c) \<and>
    \<not> forbidden ty \<and> (is_parameter \<longrightarrow> is_module c \<and> parameter_type_ok ty)"
  then have ne: "an \<noteq> cn" by (elim conjE)
  from h have a1: "an \<notin> set (attributeNames c)" by (elim conjE)
  from h have a2: "an \<notin> set (constantNames c)" by (elim conjE)
  from h have b1: "cn \<notin> set (attributeNames c)" by (elim conjE)
  from h have b2: "cn \<notin> set (constantNames c)" by (elim conjE)
  from h have ty: "\<not> forbidden ty" by (elim conjE)
  from h have par: "is_parameter \<longrightarrow> is_module c \<and> parameter_type_ok ty" by (elim conjE)
  show "\<exists>c1 c2. addAttribute forbidden c an ty is_parameter = (Inr (length (attributeNames c)), c1) \<and>
               addConstant c1 cn v = (Inr (length (constantNames c)), c2)"
    using a1 a2 b1 b2 ne ty par by (rule add_attribute_then_constant)
  show "\<exists>c1 c2. addConstant c cn v = (Inr (length (constantNames c)), c1) \<and>
               addAttribute forbidden c1 an ty is_parameter = (Inr (length (attributeNames c)), c2)"
    using a1 a2 b1 b2 ne ty par by (rule add_constant_then_attribute)
next
  assume "nm \<in> set (constantNames c)"
  then show "\<exists>i<length (constantNames c). constantNames c ! i = nm \<and>
           addAttribute forbidden c nm ty is_parameter =
             (Inl (ConstantFieldExists (if is_parameter then ''parameter'' else ''attribute'') nm
                     (constantValues c ! i)), c) \<and>
           addConstant c nm v = (Inl (ConstantFieldExists ''constant'' nm (constantValues c ! i)), c)"
    by (rule existing_constant_conflict)
next
  assume h: "nm \<notin> set (constantNames c) \<and> nm \<in> set (attributeNames c)"
  show "\<exists>i<length (attributeNames c). attributeNames c ! i = nm \<and>
           addAttribute forbidden c nm ty is_parameter =
             (Inl (AttributeFieldExists (if is_parameter then ''parameter'' else ''attribute'') nm
                     (attributeTypes c ! i)), c) \<and>
           addConstant c nm v = (Inl (AttributeFieldExists ''constant'' nm (attributeTypes c ! i)), c)"
    by (rule existing_attribute_conflict [OF conjunct1 [OF h] conjunct2 [OF h]])
next
  assume h: "addConstant c nm v = (Inr slot, c1) \<and> length (constantValues c) = length (constantNames c)"
  show "addAttribute forbidden c1 nm ty is_parameter =
          (Inl (ConstantFieldExists (if is_parameter then ''parameter'' else ''attribute'') nm v), c1)"
    by (rule attribute_after_constant_conflict [OF conjunct1 [OF h] conjunct2 [OF h]])
next
  assume h: "addAttribute forbidden c nm ty is_parameter = (Inr slot, c1) \<and>
       length (attributeTypes c) = length (attributeNames c)"
  show "addConstant c1 nm v = (Inl (AttributeFieldExists ''constant'' nm ty), c1)"
    by (rule constant_after_attribute_conflict [OF conjunct1 [OF h] conjunct2 [OF h]])
next
  assume "an \<notin> set (attributeNames c) \<and> an \<notin> set (constantNames c)"
  then show "checkNotExist c an what = Inr ()"
    by (simp add: checkNotExist_ok)
qed

theorem field_names_shared_by_attributes_and_constants_witness:
  "''z'' \<noteq> ''k'' \<and> ''z'' \<notin> set (attributeNames Point) \<and> ''z'' \<notin> set (constantNames Point) \<and>
   ''k'' \<notin> set (attributeNames Point) \<and> ''k'' \<notin> set (constantNames Point) \<and> \<not> is_any FloatType \<and>
   fst (addAttribute is_any Point ''z'' FloatType False) = Inr 2 \<and>
   fst (addConstant (snd (addAttribute is_any Point ''z'' FloatType False)) ''k'' (IntVal 7)) = Inr 1 \<and>
   fst (addConstant Point ''k'' (IntVal 7)) = Inr 1 \<and>
   fst (addAttribute is_any (snd (addConstant Point ''k'' (IntVal 7))) ''z'' FloatType False) = Inr 2 \<and>
   ''dims'' \<in> set (constantNames Point) \<and>
   addAttribute is_any Point ''dims'' FloatType False =
     (Inl (ConstantFieldExists ''attribute'' ''dims'' (IntVal 2)), Point) \<and>
   addConstant Point ''dims'' (IntVal 7) =
     (Inl (ConstantFieldExists ''constant'' ''dims'' (IntVal 2)), Point) \<and>
   ''x'' \<notin> set (constantNames Point) \<and> ''x'' \<in> set (attributeNames Point) \<and>
   addConstant Point ''x'' (IntVal 7) = (Inl (AttributeFieldExists ''constant'' ''x'' FloatType), Point) \<and>
   addAttribute is_any Point ''x'' FloatType False =
     (Inl (AttributeFieldExists ''attribute'' ''x'' FloatType), Point) \<and>
   addAttribute is_any (snd (addConstant Point ''k'' (IntVal 7))) ''k'' FloatType False =
     (Inl (ConstantFieldExists ''attribute'' ''k'' (IntVal 7)), snd (addConstant Point ''k'' (IntVal 7))) \<and>
   addConstant (snd (addAttribute is_any Point ''z'' FloatType False)) ''z'' (IntVal 7) =
     (Inl (AttributeFieldExists ''constant'' ''z'' FloatType),
      snd (addAttribute is_any Point ''z'' FloatType False))"
  using field_names_shared_by_attributes_and_constants [of "''z''" "''k''" Point is_any FloatType False "IntVal 7" "''dims''" 1
               "snd (addConstant Point ''k'' (IntVal 7))"]
    field_names_shared_by_attributes_and_constants [of "''z''" "''k''" Point is_any FloatType False "IntVal 7" "''x''" 2
               "snd (addAttribute is_any Point ''z'' FloatType False)"]
  by (simp add: eval_defs create_def is_module_def)

text \<open>
  C10. Method names are a namespace of their own. \<^verbatim>\<open>addMethod\<close> fails exactly when some
  method of the type has the name and otherwise appends the method; the attribute and
  constant tables have no part in it. A name that is in neither field table is added as
  an attribute (with a type that passes the type checks) or as a constant, with the
  appends made, whatever the methods are. Changing the methods changes neither outcome
  nor effect of the field adds, and changing the field tables changes neither outcome nor
  effect of \<^verbatim>\<open>addMethod\<close>.
\<close>

theorem method_names_independent_of_field_names:
  "addMethod F c m =
     (if \<exists>m'\<in>set (methods c). function_name (F m') = function_name (F m)
      then (Inl (MethodRedefined (function_name (F m))), c)
      else (Inr (), c\<lparr>methods := methods c @ [m]\<rparr>))
   \<and> (nm \<notin> set (attributeNames c) \<and> nm \<notin> set (constantNames c) \<and> \<not> forbidden ty \<and>
       (is_parameter \<longrightarrow> is_module c \<and> parameter_type_ok ty) \<longrightarrow>
         addAttribute forbidden c nm ty is_parameter =
           (Inr (numAttributes c),
            c\<lparr>attributeNames := attributeNames c @ [nm],
              attributeTypes := attributeTypes c @ [ty],
              parameterSlots := map_option (\<lambda>ps. ps @ [is_parameter]) (parameterSlots c)\<rparr>) \<and>
         addConstant c nm v =
           (Inr (length (constantNames c)),
            c\<lparr>constantNames := constantNames c @ [nm], constantValues := constantValues c @ [v]\<rparr>))
   \<and> addAttribute forbidden (c\<lparr>methods := ms\<rparr>) nm ty is_parameter =
       (fst (addAttribute forbidden c nm ty is_parameter),
        (snd (addAttribute forbidden c nm ty is_parameter))\<lparr>methods := ms\<rparr>)
   \<and> addConstant (c\<lparr>methods := ms\<rparr>) nm v =
       (fst (addConstant c nm v), (snd (addConstant c nm v))\<lparr>methods := ms\<rparr>)
   \<and> addMethod F (c\<lparr>attributeNames := ns, attributeTypes := ts, constantNames := cs,
                     constantValues := vs\<rparr>) m =
       (fst (addMethod F c m),
        (snd (addMethod F c m))\<lparr>attributeNames := ns, attributeTypes := ts, constantNames := cs,
                                constantValues := vs\<rparr>)"
proof (intro conjI impI)
  show "addMethod F c m =
     (if \<exists>m'\<in>set (methods c). function_name (F m') = function_name (F m)
      then (Inl (MethodRedefined (function_name (F m))), c)
      else (Inr (), c\<lparr>methods := methods c @ [m]\<rparr>))"
    by (rule addMethod_cases)
next
  assume h: "nm \<notin> set (attributeNames c) \<and> nm \<notin> set (constantNames c) \<and> \<not> forbidden ty \<and>
       (is_parameter \<longrightarrow> is_module c \<and> parameter_type_ok ty)"
  from h have a: "nm \<notin> set (attributeNames c)" by (elim conjE)
  from h have k: "nm \<notin> set (constantNames c)" by (elim conjE)
  from h have ty: "\<not> forbidden ty" by (elim conjE)
  from h have par: "is_parameter \<longrightarrow> is_module c \<and> parameter_type_ok ty" by (elim conjE)
  show "addAttribute forbidden c nm ty is_parameter =
           (Inr (numAttributes c),
            c\<lparr>attributeNames := attributeNames c @ [nm],
              attributeTypes := attributeTypes c @ [ty],
              parameterSlots := map_option (\<lambda>ps. ps @ [is_parameter]) (parameterSlots c)\<rparr>)"
    using addAttribute_success [of nm c forbidden ty is_parameter] a k ty par
    by (simp add: numAttributes_def)
  show "addConstant c nm v =
           (Inr (length (constantNames c)),
            c\<lparr>constantNames := constantNames c @ [nm], constantValues := constantValues c @ [v]\<rparr>)"
    using addConstant_success [of nm c v] a k by simp
next
  show "addAttribute forbidden (c\<lparr>methods := ms\<rparr>) nm ty is_parameter =
       (fst (addAttribute forbidden c nm ty is_parameter),
        (snd (addAttribute forbidden c nm ty is_parameter))\<lparr>methods := ms\<rparr>)"
    by (rule addAttribute_ignores_methods)
next
  show "addConstant (c\<lparr>methods := ms\<rparr>) nm v =
       (fst (addConstant c nm v), (snd (addConstant c nm v))\<lparr>methods := ms\<rparr>)"
    by (rule addConstant_ignores_methods)
next
  show "addMethod F (c\<lparr>attributeNames := ns, attributeTypes := ts, constantNames := cs,
                     constantValues := vs\<rparr>) m =
       (fst (addMethod F c m),
        (snd (addMethod F c m))\<lparr>attributeNames := ns, attributeTypes := ts, constantNames := cs,
                                constantValues := vs\<rparr>)"
    by (rule addMethod_ignores_fields)
qed

theorem method_names_independent_of_field_names_witness:
  "function_name (example_functions 3) \<in> set (attributeNames Point) \<and>
   function_name (example_functions 4) \<in> set (constantNames Point) \<and>
   addMethod example_functions Point 3 = (Inr (), Point\<lparr>methods := [3]\<rparr>) \<and>
   addMethod example_functions Point 4 = (Inr (), Point\<lparr>methods := [4]\<rparr>) \<and>
   addMethod example_functions Square 1 = (Inl (MethodRedefined ''area''), Square) \<and>
   ''area'' \<notin> set (attributeNames Square) \<and> ''area'' \<notin> set (constantNames Square) \<and>
   \<not> is_any FloatType \<and>
   getMethod example_functions Square ''area'' = Some 0 \<and>
   addAttribute is_any Square ''area'' FloatType False =
     (Inr 0, Square\<lparr>attributeNames := [''area''], attributeTypes := [FloatType]\<rparr>) \<and>
   addConstant Square ''area'' (IntVal 1) =
     (Inr 0, Square\<lparr>constantNames := [''area''], constantValues := [IntVal 1]\<rparr>)"
  using method_names_independent_of_field_names
      [of example_functions Point 3 "''z''" is_any FloatType False "IntVal 1"]
    method_names_independent_of_field_names
      [of example_functions Point 4 "''z''" is_any FloatType False "IntVal 1"]
    method_names_independent_of_field_names
      [of example_functions Square 1 "''area''" is_any FloatType False "IntVal 1"]
  by (simp add: eval_defs example_defs)

text \<open>
  C1 fails on the code. \<^verbatim>\<open>addAttribute\<close> appends the name and the type before it checks
  that a parameter is added to a module and has a tensor, optional tensor or none type.
  When one of these two checks throws, the name and the type stay appended: on the plain
  class and on the module below the failed call leaves one attribute behind.
\<close>

theorem failed_parameter_add_keeps_appends:
  "addAttribute is_any (create (Some ''Point'') 0 False) ''w'' TensorType True =
     (Inl ParameterOnNonModule,
      (create (Some ''Point'') 0 False)\<lparr>attributeNames := [''w''], attributeTypes := [TensorType]\<rparr>) \<and>
   addAttribute is_any (create (Some ''Net'') 0 True) ''w'' IntType True =
     (Inl (ParameterTypeRejected IntType),
      (create (Some ''Net'') 0 True)\<lparr>attributeNames := [''w''], attributeTypes := [IntType]\<rparr>)"
  by (simp add: eval_defs create_def is_module_def)

text \<open>
  C3 fails on the code for the same reason. On a module, the parameter type check throws
  after the name and the type were appended and before the parameter slot is: the type
  is left with one attribute name, one attribute type and no parameter slot.
\<close>

theorem failed_parameter_add_breaks_parallel_lengths:
  "is_module (snd (addAttribute is_any (create (Some ''Net'') 0 True) ''bias'' StringType True)) \<and>
   fst (addAttribute is_any (create (Some ''Net'') 0 True) ''bias'' StringType True) =
     Inl (ParameterTypeRejected StringType) \<and>
   numAttributes (snd (addAttribute is_any (create (Some ''Net'') 0 True) ''bias'' StringType True)) = 1 \<and>
   length (attributeNames (snd (addAttribute is_any (create (Some ''Net'') 0 True) ''bias'' StringType True))) = 1 \<and>
   length (attributeTypes (snd (addAttribute is_any (create (Some ''Net'') 0 True) ''bias'' StringType True))) = 1 \<and>
   map_option length
     (parameterSlots (snd (addAttribute is_any (create (Some ''Net'') 0 True) ''bias'' StringType True))) = Some 0"
  by (simp add: eval_defs create_def is_module_def)

text \<open>
  C7 fails on the code at the type the failed parameter add of C1 and C3 leaves behind.
  The module below has one attribute name, one attribute type and no parameter slot.
  Removing that attribute finds slot 0 and erases it from the names and from the types;
  the third erase is at the end of the empty parameter slots, which is undefined
  behaviour, so the removal has no defined outcome there. (The returned slot of a
  successful add is the prior count on every type, and on every type whose parallel
  sequences agree in length the removal is defined and renumbers the later slots: lemmas
  \<open>addAttribute_result\<close>, \<open>unsafeRemoveAttribute_defined\<close> and \<open>removed_attribute_slots\<close>.)
\<close>

theorem removal_after_failed_parameter_add_is_undefined:
  "fst (addAttribute is_any (create (Some ''Net'') 0 True) ''bias'' StringType True) =
     Inl (ParameterTypeRejected StringType) \<and>
   getAttributeSlot
     (snd (addAttribute is_any (create (Some ''Net'') 0 True) ''bias'' StringType True)) ''bias'' = Inr 0 \<and>
   erase (attributeNames
     (snd (addAttribute is_any (create (Some ''Net'') 0 True) ''bias'' StringType True))) 0 = Some [] \<and>
   erase (attributeTypes
     (snd (addAttribute is_any (create (Some ''Net'') 0 True) ''bias'' StringType True))) 0 = Some [] \<and>
   parameterSlots
     (snd (addAttribute is_any (create (Some ''Net'') 0 True) ''bias'' StringType True)) = Some [] \<and>
   erase ([] :: bool list) 0 = None \<and>
   unsafeRemoveAttribute
     (snd (addAttribute is_any (create (Some ''Net'') 0 True) ''bias'' StringType True)) ''bias'' = None"
  by (simp add: eval_defs create_def is_module_def)

subsection \<open>Refinement\<close>

lemma refine_attributes_success:
  assumes "\<forall>i\<in>set idx. sub (ts ! i) (attributeTypes c ! i) \<and> \<not> forbidden (ts ! i)"
    and "distinct (map (\<lambda>i. attributeNames c ! i) idx)"
    and "\<forall>i\<in>set idx. attributeNames c ! i \<notin> set (attributeNames ptr) \<and>
                     attributeNames c ! i \<notin> set (constantNames ptr)"
  shows "refine_attributes forbidden sub c ts idx ptr =
           Inr (ptr\<lparr>attributeNames := attributeNames ptr @ map (\<lambda>i. attributeNames c ! i) idx,
                    attributeTypes := attributeTypes ptr @ map (\<lambda>i. ts ! i) idx,
                    parameterSlots :=
                      map_option (\<lambda>ps. ps @ replicate (length idx) False) (parameterSlots ptr)\<rparr>)"
  using assms
proof (induction idx arbitrary: ptr)
  case Nil
  show ?case
    by (cases "parameterSlots ptr") simp_all
next
  case (Cons i rest)
  let ?p = "ptr\<lparr>attributeNames := attributeNames ptr @ [attributeNames c ! i],
                 attributeTypes := attributeTypes ptr @ [ts ! i],
                 parameterSlots := map_option (\<lambda>ps. ps @ [False]) (parameterSlots ptr)\<rparr>"
  have add: "addAttribute forbidden ptr (attributeNames c ! i) (ts ! i) False =
      (Inr (length (attributeNames ptr)), ?p)"
    using addAttribute_success [of "attributeNames c ! i" ptr forbidden "ts ! i" False] Cons.prems
    by simp
  have ih: "refine_attributes forbidden sub c ts rest ?p =
      Inr (?p\<lparr>attributeNames := attributeNames ?p @ map (\<lambda>i. attributeNames c ! i) rest,
               attributeTypes := attributeTypes ?p @ map (\<lambda>i. ts ! i) rest,
               parameterSlots :=
                 map_option (\<lambda>ps. ps @ replicate (length rest) False) (parameterSlots ?p)\<rparr>)"
    by (rule Cons.IH) (use Cons.prems in \<open>auto simp: image_iff\<close>)
  have sub: "sub (ts ! i) (attributeTypes c ! i)"
    using Cons.prems by simp
  have step: "refine_attributes forbidden sub c ts (i # rest) ptr =
      refine_attributes forbidden sub c ts rest ?p"
    by (simp add: sub add addAttribute_default_is_parameter_def)
  show ?case
    unfolding step ih
    by (cases "parameterSlots ptr") (simp_all add: replicate_app_Cons_same)
qed

lemma refine_methods_success:
  assumes "distinct (map (\<lambda>m. function_name (F m)) ms)"
    and "\<forall>m\<in>set ms. \<forall>m'\<in>set (methods ptr). function_name (F m) \<noteq> function_name (F m')"
  shows "refine_methods F ms ptr = Inr (ptr\<lparr>methods := methods ptr @ ms\<rparr>)"
  using assms
proof (induction ms arbitrary: ptr)
  case Nil
  show ?case by simp
next
  case (Cons m rest)
  have none: "getMethod F ptr (function_name (F m)) = None"
    using Cons.prems by (simp add: getMethod_def find_None_iff)
  have ih: "refine_methods F rest (ptr\<lparr>methods := methods ptr @ [m]\<rparr>) =
      Inr (ptr\<lparr>methods := methods ptr @ [m]\<rparr>
             \<lparr>methods := methods (ptr\<lparr>methods := methods ptr @ [m]\<rparr>) @ rest\<rparr>)"
    by (rule Cons.IH) (use Cons.prems in \<open>auto simp: image_iff\<close>)
  have step: "refine_methods F (m # rest) ptr =
      refine_methods F rest (ptr\<lparr>methods := methods ptr @ [m]\<rparr>)"
    by (simp add: addMethod_success [OF none])
  show ?case
    unfolding step ih by simp
qed

lemma refine_success:
  assumes len: "length ts = numAttributes c"
    and sub: "\<forall>i<length ts. sub (ts ! i) (attributeTypes c ! i)"
    and names: "distinct (attributeNames c)"
    and meths: "distinct (map (\<lambda>m. function_name (F m)) (methods c))"
    and ok: "\<forall>t\<in>set ts. \<not> forbidden t"
  shows "refine forbidden sub F c ts =
           Inr \<lparr>qualifiedName = qualifiedName c, compilation_unit = compilation_unit c,
                attributeNames = attributeNames c, attributeTypes = ts,
                parameterSlots = None, constantNames = [], constantValues = [],
                methods = methods c\<rparr>"
proof -
  let ?n = "length (attributeNames c)"
  let ?ptr = "create (qualifiedName c) (compilation_unit c) create_default_is_module"
  have n: "length ts = ?n"
    using len by (simp add: numAttributes_def)
  have m1: "map (\<lambda>i. attributeNames c ! i) [0..<?n] = attributeNames c"
    by (rule map_nth)
  have m2: "map (\<lambda>i. ts ! i) [0..<?n] = ts"
    using map_nth [of ts] n by simp
  have a1: "\<forall>i\<in>set [0..<?n]. sub (ts ! i) (attributeTypes c ! i) \<and> \<not> forbidden (ts ! i)"
    using sub ok n by simp
  have a2: "distinct (map (\<lambda>i. attributeNames c ! i) [0..<?n])"
    unfolding m1 by (rule names)
  have a3: "\<forall>i\<in>set [0..<?n]. attributeNames c ! i \<notin> set (attributeNames ?ptr) \<and>
                     attributeNames c ! i \<notin> set (constantNames ?ptr)"
    by (simp add: create_def)
  have attrs: "refine_attributes forbidden sub c ts [0..<?n] ?ptr =
      Inr (?ptr\<lparr>attributeNames := attributeNames c, attributeTypes := ts\<rparr>)"
    unfolding refine_attributes_success [OF a1 a2 a3] m1 m2
    by (simp add: create_def create_default_is_module_def)
  have b2: "\<forall>m\<in>set (methods c).
      \<forall>m'\<in>set (methods (?ptr\<lparr>attributeNames := attributeNames c, attributeTypes := ts\<rparr>)).
        function_name (F m) \<noteq> function_name (F m')"
    by (simp add: create_def)
  have meth: "refine_methods F (methods c) (?ptr\<lparr>attributeNames := attributeNames c, attributeTypes := ts\<rparr>) =
      Inr (?ptr\<lparr>attributeNames := attributeNames c, attributeTypes := ts, methods := methods c\<rparr>)"
    unfolding refine_methods_success [OF meths b2]
    by (simp add: create_def)
  show ?thesis
    using len by (simp add: refine_def Let_def attrs meth) (simp add: create_def create_default_is_module_def)
qed

lemma refine_size_mismatch:
  "length ts \<noteq> numAttributes c \<Longrightarrow> refine forbidden sub F c ts = Inl RefineSizeMismatch"
  by (auto simp: refine_def Let_def)

lemma refine_attributes_first_failure:
  assumes "\<not> sub (ts ! i) (attributeTypes c ! i)"
    and "\<forall>j\<in>set pre. sub (ts ! j) (attributeTypes c ! j) \<and> \<not> forbidden (ts ! j)"
    and "distinct (map (\<lambda>j. attributeNames c ! j) pre)"
    and "\<forall>j\<in>set pre. attributeNames c ! j \<notin> set (attributeNames ptr) \<and>
                     attributeNames c ! j \<notin> set (constantNames ptr)"
  shows "refine_attributes forbidden sub c ts (pre @ i # post) ptr = Inl (RefineNotSubtype i)"
  using assms
proof (induction pre arbitrary: ptr)
  case Nil
  then show ?case by simp
next
  case (Cons j rest)
  let ?p = "ptr\<lparr>attributeNames := attributeNames ptr @ [attributeNames c ! j],
                 attributeTypes := attributeTypes ptr @ [ts ! j],
                 parameterSlots := map_option (\<lambda>ps. ps @ [False]) (parameterSlots ptr)\<rparr>"
  have add: "addAttribute forbidden ptr (attributeNames c ! j) (ts ! j) False =
      (Inr (length (attributeNames ptr)), ?p)"
    using addAttribute_success [of "attributeNames c ! j" ptr forbidden "ts ! j" False] Cons.prems
    by simp
  have sub: "sub (ts ! j) (attributeTypes c ! j)"
    using Cons.prems by simp
  have step: "refine_attributes forbidden sub c ts ((j # rest) @ i # post) ptr =
      refine_attributes forbidden sub c ts (rest @ i # post) ?p"
    by (simp add: sub add addAttribute_default_is_parameter_def)
  have ih: "refine_attributes forbidden sub c ts (rest @ i # post) ?p = Inl (RefineNotSubtype i)"
    by (rule Cons.IH) (use Cons.prems in \<open>auto simp: image_iff\<close>)
  show ?case
    unfolding step ih ..
qed

lemma refine_attributes_some_failure:
  assumes "\<exists>i\<in>set idx. \<not> sub (ts ! i) (attributeTypes c ! i)"
  shows "\<exists>e. refine_attributes forbidden sub c ts idx ptr = Inl e"
  using assms
proof (induction idx arbitrary: ptr)
  case Nil
  then show ?case by simp
next
  case (Cons i rest)
  show ?case
  proof (cases "sub (ts ! i) (attributeTypes c ! i)")
    case False
    then show ?thesis by simp
  next
    case True
    with Cons.prems have later: "\<exists>i\<in>set rest. \<not> sub (ts ! i) (attributeTypes c ! i)"
      by auto
    obtain res ptr' where add:
      "addAttribute forbidden ptr (attributeNames c ! i) (ts ! i) addAttribute_default_is_parameter =
         (res, ptr')"
      by (cases "addAttribute forbidden ptr (attributeNames c ! i) (ts ! i)
                   addAttribute_default_is_parameter")
    show ?thesis
    proof (cases res)
      case (Inl e)
      with True add show ?thesis by simp
    next
      case (Inr slot)
      with True add Cons.IH [OF later, of ptr'] show ?thesis by simp
    qed
  qed
qed

lemma refine_attributes_keeps_plain:
  assumes "refine_attributes forbidden sub c ts idx ptr = Inr r" "parameterSlots ptr = None"
  shows "parameterSlots r = None"
  using assms
proof (induction idx arbitrary: ptr)
  case Nil
  then show ?case by simp
next
  case (Cons i rest)
  obtain res ptr' where add:
    "addAttribute forbidden ptr (attributeNames c ! i) (ts ! i) addAttribute_default_is_parameter =
       (res, ptr')"
    by (cases "addAttribute forbidden ptr (attributeNames c ! i) (ts ! i)
                 addAttribute_default_is_parameter")
  from Cons.prems(1) add obtain slot where res: "res = Inr slot"
    by (cases res) (simp_all split: if_splits)
  from Cons.prems(1) add res have rest: "refine_attributes forbidden sub c ts rest ptr' = Inr r"
    by (simp split: if_splits)
  from addAttribute_result [OF add [unfolded res]] Cons.prems(2)
  have "parameterSlots ptr' = None" by simp
  with Cons.IH [OF rest] show ?case .
qed

lemma refine_methods_keeps_slots:
  assumes "refine_methods F ms ptr = Inr r"
  shows "parameterSlots r = parameterSlots ptr"
  using assms
proof (induction ms arbitrary: ptr)
  case Nil
  then show ?case by simp
next
  case (Cons m rest)
  show ?case
  proof (cases "getMethod F ptr (function_name (F m)) = None")
    case True
    with Cons.prems have "refine_methods F rest (ptr\<lparr>methods := methods ptr @ [m]\<rparr>) = Inr r"
      by (simp add: addMethod_def)
    from Cons.IH [OF this] show ?thesis by simp
  next
    case False
    with Cons.prems show ?thesis
      by (simp add: addMethod_def)
  qed
qed

lemma refine_result_plain:
  assumes "refine forbidden sub F c ts = Inr r"
  shows "parameterSlots r = None"
proof -
  let ?ptr = "create (qualifiedName c) (compilation_unit c) create_default_is_module"
  from assms obtain ptr1 where
    a: "refine_attributes forbidden sub c ts [0..<length (attributeNames c)] ?ptr = Inr ptr1"
    and m: "refine_methods F (methods c) ptr1 = Inr r"
    by (auto simp: refine_def Let_def split: if_splits sum.splits)
  have "parameterSlots ?ptr = None"
    by (simp add: create_def create_default_is_module_def)
  with refine_attributes_keeps_plain [OF a] have "parameterSlots ptr1 = None" .
  with refine_methods_keeps_slots [OF m] show ?thesis by simp
qed

subsection \<open>Claims about refinement\<close>

text \<open>
  C8. \<^verbatim>\<open>refine\<close> with a list whose length is not the attribute count fails at the size
  assertion. With the right length and some replacement that is not a subtype of the
  attribute type at its slot it fails; the failure is the subtype assertion at the first
  such slot \<open>i\<close> whenever the slots before \<open>i\<close> were added (their replacements are not
  forbidden types and their names are distinct), so at slot 0 without any condition. When every replacement is a subtype of the attribute type at its slot (and is
  not a forbidden type, and the attribute names and the method names of the class are
  distinct, as the adds maintain), the result is a new class type with the qualified name
  and compilation unit of the receiver, the same attribute names in the same order, the
  replacements as attribute types slot by slot, and the same method pointers in the same
  order.
\<close>

theorem refine_checks_and_result:
  "(length ts \<noteq> numAttributes c \<longrightarrow>
      refine forbidden sub F c ts = Inl RefineSizeMismatch \<and> internal_assert RefineSizeMismatch)
   \<and> (length ts = numAttributes c \<and> (\<exists>i<length ts. \<not> sub (ts ! i) (attributeTypes c ! i)) \<longrightarrow>
        (\<exists>e. refine forbidden sub F c ts = Inl e))
   \<and> (length ts = numAttributes c \<and> i < length ts \<and> \<not> sub (ts ! i) (attributeTypes c ! i) \<and>
       (\<forall>j<i. sub (ts ! j) (attributeTypes c ! j) \<and> \<not> forbidden (ts ! j)) \<and>
       distinct (take i (attributeNames c)) \<longrightarrow>
        refine forbidden sub F c ts = Inl (RefineNotSubtype i) \<and>
        internal_assert (RefineNotSubtype i))
   \<and> (length ts = numAttributes c \<and> (\<forall>i<length ts. sub (ts ! i) (attributeTypes c ! i)) \<and>
       distinct (attributeNames c) \<and> distinct (map (\<lambda>m. function_name (F m)) (methods c)) \<and>
       (\<forall>t\<in>set ts. \<not> forbidden t) \<longrightarrow>
        (\<exists>r. refine forbidden sub F c ts = Inr r \<and>
           qualifiedName r = qualifiedName c \<and> compilation_unit r = compilation_unit c \<and>
           numAttributes r = numAttributes c \<and> attributeNames r = attributeNames c \<and>
           attributeTypes r = ts \<and> (\<forall>i<length ts. attributeTypes r ! i = ts ! i) \<and>
           methods r = methods c))"
proof (intro conjI impI)
  assume "length ts \<noteq> numAttributes c"
  then show "refine forbidden sub F c ts = Inl RefineSizeMismatch"
    by (rule refine_size_mismatch)
next
  show "internal_assert RefineSizeMismatch" by simp
next
  assume h: "length ts = numAttributes c \<and> (\<exists>i<length ts. \<not> sub (ts ! i) (attributeTypes c ! i))"
  then have "\<exists>i\<in>set [0..<length (attributeNames c)]. \<not> sub (ts ! i) (attributeTypes c ! i)"
    by (auto simp: numAttributes_def)
  from refine_attributes_some_failure [OF this] obtain e where
    "refine_attributes forbidden sub c ts [0..<length (attributeNames c)]
       (create (qualifiedName c) (compilation_unit c) create_default_is_module) = Inl e"
    by blast
  with h show "\<exists>e. refine forbidden sub F c ts = Inl e"
    by (simp add: refine_def Let_def)
next
  assume h: "length ts = numAttributes c \<and> i < length ts \<and> \<not> sub (ts ! i) (attributeTypes c ! i) \<and>
       (\<forall>j<i. sub (ts ! j) (attributeTypes c ! j) \<and> \<not> forbidden (ts ! j)) \<and>
       distinct (take i (attributeNames c))"
  let ?n = "length (attributeNames c)"
  let ?ptr = "create (qualifiedName c) (compilation_unit c) create_default_is_module"
  from h have n: "length ts = ?n" by (simp add: numAttributes_def)
  from h have i: "i < length ts" by (elim conjE)
  from h have ni: "\<not> sub (ts ! i) (attributeTypes c ! i)" by (elim conjE)
  from h have before: "\<forall>j<i. sub (ts ! j) (attributeTypes c ! j) \<and> \<not> forbidden (ts ! j)"
    by (elim conjE)
  from h have d: "distinct (take i (attributeNames c))" by (elim conjE)
  have split: "[0..<?n] = [0..<i] @ i # [Suc i..<?n]"
    using i n by (metis le0 less_imp_le_nat upt_add_eq_append upt_conv_Cons le_add_diff_inverse plus_nat.add_0)
  have p1: "\<forall>j\<in>set [0..<i]. sub (ts ! j) (attributeTypes c ! j) \<and> \<not> forbidden (ts ! j)"
    using before by simp
  have "map (\<lambda>j. attributeNames c ! j) [0..<i] = take i (attributeNames c)"
    using i n by (simp add: list_eq_iff_nth_eq)
  with d have p2: "distinct (map (\<lambda>j. attributeNames c ! j) [0..<i])"
    by simp
  have p3: "\<forall>j\<in>set [0..<i]. attributeNames c ! j \<notin> set (attributeNames ?ptr) \<and>
                     attributeNames c ! j \<notin> set (constantNames ?ptr)"
    by (simp add: create_def)
  have "refine_attributes forbidden sub c ts [0..<?n] ?ptr = Inl (RefineNotSubtype i)"
    unfolding split by (rule refine_attributes_first_failure [OF ni p1 p2 p3])
  then show "refine forbidden sub F c ts = Inl (RefineNotSubtype i)"
    using n by (simp add: refine_def Let_def numAttributes_def)
  show "internal_assert (RefineNotSubtype i)" by simp
next
  assume h: "length ts = numAttributes c \<and> (\<forall>i<length ts. sub (ts ! i) (attributeTypes c ! i)) \<and>
       distinct (attributeNames c) \<and> distinct (map (\<lambda>m. function_name (F m)) (methods c)) \<and>
       (\<forall>t\<in>set ts. \<not> forbidden t)"
  from h have len: "length ts = numAttributes c" by (elim conjE)
  from h have sub: "\<forall>i<length ts. sub (ts ! i) (attributeTypes c ! i)" by (elim conjE)
  from h have names: "distinct (attributeNames c)" by (elim conjE)
  from h have meths: "distinct (map (\<lambda>m. function_name (F m)) (methods c))" by (elim conjE)
  from h have ok: "\<forall>t\<in>set ts. \<not> forbidden t" by (elim conjE)
  show "\<exists>r. refine forbidden sub F c ts = Inr r \<and>
           qualifiedName r = qualifiedName c \<and> compilation_unit r = compilation_unit c \<and>
           numAttributes r = numAttributes c \<and> attributeNames r = attributeNames c \<and>
           attributeTypes r = ts \<and> (\<forall>i<length ts. attributeTypes r ! i = ts ! i) \<and>
           methods r = methods c"
    unfolding refine_success [OF len sub names meths ok]
    by (simp add: numAttributes_def)
qed

theorem refine_checks_and_result_witness:
  "numAttributes NetWithMethods = 3 \<and>
   distinct (attributeNames NetWithMethods) \<and>
   distinct (map (\<lambda>m. function_name (example_functions m)) (methods NetWithMethods)) \<and>
   example_sub TensorType TensorType \<and> example_sub TensorType (OptionalType TensorType) \<and>
   example_sub IntType IntType \<and> \<not> example_sub IntType (OptionalType TensorType) \<and>
   \<not> is_any TensorType \<and> \<not> is_any IntType \<and>
   refine is_any example_sub example_functions NetWithMethods [TensorType] = Inl RefineSizeMismatch \<and>
   refine is_any example_sub example_functions NetWithMethods [TensorType, IntType, IntType] =
     Inl (RefineNotSubtype 1) \<and>
   numAttributes Point = 2 \<and> \<not> example_sub AnyType FloatType \<and> is_any AnyType \<and>
   refine is_any example_sub example_functions Point [AnyType, FloatType] = Inl (RefineNotSubtype 0) \<and>
   refine is_any example_sub example_functions NetWithMethods [TensorType, TensorType, IntType] =
     Inr \<lparr>qualifiedName = Some ''Net'', compilation_unit = 0,
          attributeNames = [''weight'', ''bias'', ''steps''],
          attributeTypes = [TensorType, TensorType, IntType],
          parameterSlots = None, constantNames = [], constantValues = [], methods = [0, 2]\<rparr>"
  using refine_checks_and_result [of "[TensorType]" NetWithMethods is_any example_sub example_functions 0]
    refine_checks_and_result [of "[TensorType, IntType, IntType]" NetWithMethods is_any example_sub example_functions 1]
    refine_checks_and_result [of "[AnyType, FloatType]" Point is_any example_sub example_functions 0]
    refine_checks_and_result [of "[TensorType, TensorType, IntType]" NetWithMethods is_any example_sub example_functions 0]
  by (simp add: refine_eval create_def is_module_def)

text \<open>
  C9. Whatever \<^verbatim>\<open>refine\<close> returns is not module-flagged and has no parameter slots, also
  when the receiver is a module: the fresh type is created without the module flag and
  filled through the plain attribute add. For a module and a valid replacement list
  \<^verbatim>\<open>refine\<close> does return such a type.
\<close>

theorem refine_drops_module_flag:
  "(refine forbidden sub F c ts = Inr r \<longrightarrow> \<not> is_module r \<and> parameterSlots r = None)
   \<and> (is_module c \<and> length ts = numAttributes c \<and>
       (\<forall>i<length ts. sub (ts ! i) (attributeTypes c ! i)) \<and>
       distinct (attributeNames c) \<and> distinct (map (\<lambda>m. function_name (F m)) (methods c)) \<and>
       (\<forall>t\<in>set ts. \<not> forbidden t) \<longrightarrow>
        (\<exists>r'. refine forbidden sub F c ts = Inr r' \<and> \<not> is_module r' \<and> parameterSlots r' = None \<and>
              attributeNames r' = attributeNames c))"
proof (intro conjI impI)
  assume "refine forbidden sub F c ts = Inr r"
  then have p: "parameterSlots r = None" by (rule refine_result_plain)
  then show "\<not> is_module r" by (simp add: is_module_def)
  show "parameterSlots r = None" by (rule p)
next
  assume h: "is_module c \<and> length ts = numAttributes c \<and>
       (\<forall>i<length ts. sub (ts ! i) (attributeTypes c ! i)) \<and>
       distinct (attributeNames c) \<and> distinct (map (\<lambda>m. function_name (F m)) (methods c)) \<and>
       (\<forall>t\<in>set ts. \<not> forbidden t)"
  from h have len: "length ts = numAttributes c" by (elim conjE)
  from h have sub: "\<forall>i<length ts. sub (ts ! i) (attributeTypes c ! i)" by (elim conjE)
  from h have names: "distinct (attributeNames c)" by (elim conjE)
  from h have meths: "distinct (map (\<lambda>m. function_name (F m)) (methods c))" by (elim conjE)
  from h have ok: "\<forall>t\<in>set ts. \<not> forbidden t" by (elim conjE)
  show "\<exists>r'. refine forbidden sub F c ts = Inr r' \<and> \<not> is_module r' \<and> parameterSlots r' = None \<and>
              attributeNames r' = attributeNames c"
    unfolding refine_success [OF len sub names meths ok]
    by (simp add: is_module_def)
qed

theorem refine_drops_module_flag_witness:
  "is_module Net \<and> parameterSlots Net = Some [True, True, False] \<and> numAttributes Net = 3 \<and>
   distinct (attributeNames Net) \<and>
   distinct (map (\<lambda>m. function_name (example_functions m)) (methods Net)) \<and>
   example_sub TensorType TensorType \<and> example_sub TensorType (OptionalType TensorType) \<and>
   example_sub IntType IntType \<and> \<not> is_any TensorType \<and> \<not> is_any IntType \<and>
   \<not> is_module (projr (refine is_any example_sub example_functions Net [TensorType, TensorType, IntType])) \<and>
   refine is_any example_sub example_functions Net [TensorType, TensorType, IntType] =
     Inr \<lparr>qualifiedName = Some ''Net'', compilation_unit = 0,
          attributeNames = [''weight'', ''bias'', ''steps''],
          attributeTypes = [TensorType, TensorType, IntType],
          parameterSlots = None, constantNames = [], constantValues = [], methods = []\<rparr>"
  using refine_drops_module_flag [of is_any example_sub example_functions Net "[TensorType, TensorType, IntType]"
      "projr (refine is_any example_sub example_functions Net [TensorType, TensorType, IntType])"]
  by (simp add: refine_eval)

end
